theory Spec2Isabelle
  imports Main "HOL-Library.Word" "HOL-Library.Sublist"
begin

unbundle bit_operations_syntax

section \<open>The install command of gofabric8 (cmds/install.go)\<close>

text \<open>
  The file installs the binaries a local fabric8 platform needs: a VM driver, a
  Kubernetes distribution (minikube or minishift), kubectl and, for minishift, the
  OpenShift client. Each Go function of the file is a HOL function of the same name.
\<close>

subsection \<open>Constants and the download properties\<close>

definition docker :: string where "docker = ''docker''"
definition dockerMachine :: string where "dockerMachine = ''docker-machine''"
definition dockerMachineDownloadURL :: string where
  "dockerMachineDownloadURL = ''https://github.com/docker/machine/releases/download/''"
definition minishiftFlag :: string where "minishiftFlag = ''minishift''"
definition minishiftOwner :: string where "minishiftOwner = ''jimmidyson''"
definition minishift :: string where "minishift = ''minishift''"
definition minikube :: string where "minikube = ''minikube''"
definition minishiftDownloadURL :: string where
  "minishiftDownloadURL = ''https://github.com/jimmidyson/''"
definition kubectl :: string where "kubectl = ''kubectl''"
definition kubernetes :: string where "kubernetes = ''kubernetes''"
definition oc :: string where "oc = ''oc''"
definition binLocation :: string where "binLocation = ''.fabric8/bin/''"
definition kubeDownloadURL :: string where
  "kubeDownloadURL = ''https://storage.googleapis.com/''"
definition ocTools :: string where "ocTools = ''openshift-origin-client-tools''"

lemmas install_consts =
  docker_def dockerMachine_def dockerMachineDownloadURL_def minishiftFlag_def
  minishiftOwner_def minishift_def minikube_def minishiftDownloadURL_def kubectl_def
  kubernetes_def oc_def binLocation_def kubeDownloadURL_def ocTools_def

record downloadProperties =
  clientBinary :: string
  kubeDistroOrg :: string
  kubeDistroRepo :: string
  kubeBinary :: string
  extraPath :: string
  downloadURL :: string
  isMiniShift :: bool

text \<open>\<open>downloadProperties{}\<close>: every string empty, the flag false.\<close>

definition zeroDownloadProperties :: downloadProperties where
  "zeroDownloadProperties =
     \<lparr>clientBinary = [], kubeDistroOrg = [], kubeDistroRepo = [], kubeBinary = [],
      extraPath = [], downloadURL = [], isMiniShift = False\<rparr>"

definition getDownloadProperties :: "bool \<Rightarrow> downloadProperties" where
  "getDownloadProperties isMinishift =
     (let d = zeroDownloadProperties in
      if isMinishift then
        d\<lparr>clientBinary := oc,
          extraPath := ''download/'',
          kubeBinary := minishift,
          downloadURL := minishiftDownloadURL,
          kubeDistroOrg := minishiftOwner,
          kubeDistroRepo := minishift,
          isMiniShift := True\<rparr>
      else
        d\<lparr>clientBinary := kubectl,
          kubeBinary := minikube,
          downloadURL := kubeDownloadURL,
          kubeDistroOrg := kubernetes,
          kubeDistroRepo := minikube,
          isMiniShift := False\<rparr>)"

subsection \<open>Strings\<close>

text \<open>
  Go strings are byte sequences: \<open>string\<close> here. \<open>strings.Split\<close> is modelled for a
  separator of one byte, the only way the program and its libraries use it.
\<close>

fun strings_Split :: "string \<Rightarrow> char \<Rightarrow> string list" where
  "strings_Split [] sep = [[]]"
| "strings_Split (c # cs) sep =
     (if c = sep then [] # strings_Split cs sep
      else (case strings_Split cs sep of [] \<Rightarrow> [[c]] | p # ps \<Rightarrow> (c # p) # ps))"

fun strings_Join :: "string list \<Rightarrow> string \<Rightarrow> string" where
  "strings_Join [] sep = []"
| "strings_Join [x] sep = x"
| "strings_Join (x # y # ys) sep = x @ sep @ strings_Join (y # ys) sep"

definition strings_HasPrefix :: "string \<Rightarrow> string \<Rightarrow> bool" where
  "strings_HasPrefix s pre = (take (length pre) s = pre)"

definition strings_TrimPrefix :: "string \<Rightarrow> string \<Rightarrow> string" where
  "strings_TrimPrefix s pre = (if strings_HasPrefix s pre then drop (length pre) s else s)"

fun strings_Contains :: "string \<Rightarrow> string \<Rightarrow> bool" where
  "strings_Contains [] sub = (sub = [])"
| "strings_Contains (c # cs) sub = (strings_HasPrefix (c # cs) sub \<or> strings_Contains cs sub)"

text \<open>
  \<open>strings.TrimSpace\<close> over the ASCII white space (tab, line feed, vertical tab, form
  feed, carriage return, space). Go also trims the Unicode spaces beyond ASCII; the
  output of \<open>brew --prefix\<close>, the one string the program trims, is a path and a line end.
\<close>

definition isSpace :: "char \<Rightarrow> bool" where
  "isSpace c = (c \<in> set [CHR 0x09, CHR 0x0A, CHR 0x0B, CHR 0x0C, CHR 0x0D, CHR 0x20])"

definition strings_TrimSpace :: "string \<Rightarrow> string" where
  "strings_TrimSpace s = rev (dropWhile isSpace (rev (dropWhile isSpace s)))"

subsection \<open>Errors\<close>

text \<open>
  A Go \<open>error\<close> value: its message, and whether \<open>os.IsNotExist\<close> holds of it. \<open>nil\<close> is
  \<open>None\<close> of \<open>error option\<close>.
\<close>

datatype error = Error (message: string) (notExist: bool)

definition errors_New :: "string \<Rightarrow> error" where
  "errors_New text = Error text False"

definition os_IsNotExist :: "error option \<Rightarrow> bool" where
  "os_IsNotExist err = (case err of None \<Rightarrow> False | Some e \<Rightarrow> notExist e)"

definition ENOENT :: error where "ENOENT = Error ''no such file or directory'' True"
definition ENOTDIR :: error where "ENOTDIR = Error ''not a directory'' False"
definition EISDIR :: error where "EISDIR = Error ''is a directory'' False"
definition EACCES :: error where "EACCES = Error ''permission denied'' False"
definition EEXIST :: error where "EEXIST = Error ''file exists'' False"

subsection \<open>Paths (path/filepath on a Unix-like host)\<close>

text \<open>
  \<open>filepath.Clean\<close> and \<open>filepath.Join\<close> with the separator \<open>/\<close>. A path is read as
  its components: empty components and \<open>.\<close> are dropped, \<open>..\<close> removes the component
  before it, stays in front of a relative path and is dropped at the root. On Windows
  Go's package works with the backslash and volume names; that variant is not part of this
  development, and nothing below is stated about file names on a Windows host.
\<close>

definition os_IsPathSeparator :: "char \<Rightarrow> bool" where
  "os_IsPathSeparator c = (c = CHR ''/'')"

definition clean_step :: "bool \<Rightarrow> string list \<Rightarrow> string \<Rightarrow> string list" where
  "clean_step rooted out c =
     (if c = [] \<or> c = ''.'' then out
      else if c = ''..'' then
        (if out \<noteq> [] \<and> last out \<noteq> ''..'' then butlast out
         else if rooted then out
         else out @ [''..''])
      else out @ [c])"

type_synonym location = "bool \<times> string list"

definition resolve :: "string \<Rightarrow> location" where
  "resolve path =
     (let rooted = (case path of [] \<Rightarrow> False | c # _ \<Rightarrow> os_IsPathSeparator c)
      in (rooted, foldl (clean_step rooted) [] (strings_Split path (CHR ''/''))))"

definition filepath_Clean :: "string \<Rightarrow> string" where
  "filepath_Clean path =
     (case resolve path of
        (rooted, cs) \<Rightarrow>
          if rooted then ''/'' @ strings_Join cs ''/''
          else if cs = [] then ''.''
          else strings_Join cs ''/'')"

definition filepath_Join :: "string list \<Rightarrow> string" where
  "filepath_Join elem =
     (case dropWhile (\<lambda>e. e = []) elem of
        [] \<Rightarrow> []
      | e # es \<Rightarrow> filepath_Clean (strings_Join (e # es) ''/''))"

subsection \<open>Semantic versions (github.com/blang/semver)\<close>

datatype PRVersion = PRNum nat | PRStr string

record Version =
  Major :: nat
  Minor :: nat
  Patch :: nat
  Pre :: "PRVersion list"
  Build :: "string list"

definition zeroVersion :: Version where
  "zeroVersion = \<lparr>Major = 0, Minor = 0, Patch = 0, Pre = [], Build = []\<rparr>"

definition digitChar :: "nat \<Rightarrow> char" where
  "digitChar d = ''0123456789'' ! d"

text \<open>\<open>strconv.FormatUint(n, 10)\<close>.\<close>

fun FormatUint :: "nat \<Rightarrow> string" where
  "FormatUint n =
     (if n < 10 then [digitChar n]
      else FormatUint (n div 10) @ [digitChar (n mod 10)])"

declare FormatUint.simps [simp del]

fun PRVersion_String :: "PRVersion \<Rightarrow> string" where
  "PRVersion_String (PRNum n) = FormatUint n"
| "PRVersion_String (PRStr s) = s"

definition Version_String :: "Version \<Rightarrow> string" where
  "Version_String v =
     FormatUint (Major v) @ ''.'' @ FormatUint (Minor v) @ ''.'' @ FormatUint (Patch v)
     @ (if Pre v \<noteq> [] then ''-'' @ strings_Join (map PRVersion_String (Pre v)) ''.'' else [])
     @ (if Build v \<noteq> [] then ''+'' @ strings_Join (Build v) ''.'' else [])"

text \<open>
  Modelled from the spec: \<open>semver.Make\<close>, the parser of the semver package, is not
  among the sources. By the spec a release version is a semantic version
  (major.minor.patch with an optional pre-release) parsed from the tag, and an
  unparseable tag is an error. The model follows Semantic Versioning 2.0.0 as that
  package reads it: three numbers without leading zeroes that fit 64 bits, then
  pre-release identifiers after \<open>-\<close> and build identifiers after \<open>+\<close>, each list split
  at the dots. The error messages are shortened (the package quotes the offending text).
\<close>

definition numbers :: string where "numbers = ''0123456789''"

definition alphas :: string where
  "alphas = ''abcdefghijklmnopqrstuvwxyzABCDEFGHIJKLMNOPQRSTUVWXYZ-''"

definition alphanum :: string where "alphanum = alphas @ numbers"

definition containsOnly :: "string \<Rightarrow> string \<Rightarrow> bool" where
  "containsOnly s allowed = list_all (\<lambda>c. c \<in> set allowed) s"

definition hasLeadingZeroes :: "string \<Rightarrow> bool" where
  "hasLeadingZeroes s = (case s of c # d # ds \<Rightarrow> c = CHR ''0'' | _ \<Rightarrow> False)"

definition digitsValue :: "string \<Rightarrow> nat" where
  "digitsValue s = foldl (\<lambda>a c. 10 * a + (of_char c - 48)) 0 s"

text \<open>\<open>strconv.ParseUint(s, 10, 64)\<close>.\<close>

definition strconv_ParseUint :: "string \<Rightarrow> error + nat" where
  "strconv_ParseUint s =
     (if s = [] \<or> \<not> containsOnly s numbers then Inl (errors_New ''invalid syntax'')
      else if digitsValue s \<ge> 2 ^ 64 then Inl (errors_New ''value out of range'')
      else Inr (digitsValue s))"

text \<open>\<open>strings.SplitN(s, sep, n)\<close> for \<open>n \<ge> 0\<close>: at most \<open>n\<close> parts, the last one unsplit.\<close>

fun strings_SplitN :: "string \<Rightarrow> char \<Rightarrow> nat \<Rightarrow> string list" where
  "strings_SplitN [] sep n = (if n = 0 then [] else [[]])"
| "strings_SplitN (c # cs) sep n =
     (if n = 0 then []
      else if n = 1 then [c # cs]
      else if c = sep then [] # strings_SplitN cs sep (n - 1)
      else (case strings_SplitN cs sep n of [] \<Rightarrow> [[c]] | p # ps \<Rightarrow> (c # p) # ps))"

definition parseNumber :: "string \<Rightarrow> string \<Rightarrow> error + nat" where
  "parseNumber what s =
     (if \<not> containsOnly s numbers then
        Inl (errors_New (''Invalid character(s) found in '' @ what @ '' number''))
      else if hasLeadingZeroes s then
        Inl (errors_New (what @ '' number must not contain leading zeroes''))
      else strconv_ParseUint s)"

definition NewPRVersion :: "string \<Rightarrow> error + PRVersion" where
  "NewPRVersion s =
     (if length s = 0 then Inl (errors_New ''Prerelease is empty'')
      else if containsOnly s numbers then
        (if hasLeadingZeroes s then
           Inl (errors_New ''Numeric PreRelease version must not contain leading zeroes'')
         else (case strconv_ParseUint s of Inl err \<Rightarrow> Inl err | Inr num \<Rightarrow> Inr (PRNum num)))
      else if containsOnly s alphanum then Inr (PRStr s)
      else Inl (errors_New ''Invalid character(s) found in prerelease''))"

fun parsePre :: "string list \<Rightarrow> error + PRVersion list" where
  "parsePre [] = Inr []"
| "parsePre (prstr # rest) =
     (case NewPRVersion prstr of
        Inl err \<Rightarrow> Inl err
      | Inr parsedPR \<Rightarrow>
          (case parsePre rest of Inl err \<Rightarrow> Inl err | Inr prs \<Rightarrow> Inr (parsedPR # prs)))"

fun parseBuild :: "string list \<Rightarrow> error + string list" where
  "parseBuild [] = Inr []"
| "parseBuild (str # rest) =
     (if length str = 0 then Inl (errors_New ''Build meta data is empty'')
      else if \<not> containsOnly str alphanum then
        Inl (errors_New ''Invalid character(s) found in build meta data'')
      else (case parseBuild rest of Inl err \<Rightarrow> Inl err | Inr bs \<Rightarrow> Inr (str # bs)))"

text \<open>
  The part of \<open>s\<close> before the first \<open>c\<close>, and the identifiers after it (none when \<open>c\<close>
  does not occur): \<open>strings.IndexRune\<close> followed by the two slices and \<open>strings.Split\<close>.
\<close>

definition cutAt :: "char \<Rightarrow> string \<Rightarrow> string \<times> string list" where
  "cutAt c s =
     (if c \<in> set s
      then (takeWhile (\<lambda>x. x \<noteq> c) s, strings_Split (tl (dropWhile (\<lambda>x. x \<noteq> c) s)) (CHR ''.''))
      else (s, []))"

definition semver_Parse :: "string \<Rightarrow> error + Version" where
  "semver_Parse s =
     (if length s = 0 then Inl (errors_New ''Version string empty'')
      else
        (case strings_SplitN s (CHR ''.'') 3 of
           [p0, p1, p2] \<Rightarrow>
             (case parseNumber ''Major'' p0 of
                Inl err \<Rightarrow> Inl err
              | Inr major \<Rightarrow>
             (case parseNumber ''Minor'' p1 of
                Inl err \<Rightarrow> Inl err
              | Inr minor \<Rightarrow>
                  (let (patchStr, build) = cutAt (CHR ''+'') p2;
                       (patchStr, prerelease) = cutAt (CHR ''-'') patchStr
                   in
                   (case parseNumber ''Patch'' patchStr of
                      Inl err \<Rightarrow> Inl err
                    | Inr patch \<Rightarrow>
                   (case parsePre prerelease of
                      Inl err \<Rightarrow> Inl err
                    | Inr pre \<Rightarrow>
                   (case parseBuild build of
                      Inl err \<Rightarrow> Inl err
                    | Inr bld \<Rightarrow>
                        Inr \<lparr>Major = major, Minor = minor, Patch = patch,
                             Pre = pre, Build = bld\<rparr>))))))
         | _ \<Rightarrow> Inl (errors_New ''No Major.Minor.Patch elements found'')))"

definition semver_Make :: "string \<Rightarrow> error + Version" where
  "semver_Make s = semver_Parse s"

subsection \<open>The file system\<close>

text \<open>
  A file is its bytes and its permission bits, a directory its permission bits. A
  location is a list of names below the root or below the working directory. The root,
  the working directory and the directories above it (the locations made of \<open>..\<close> only)
  are \<open>fixed\<close>: they always exist, and nothing is recorded about them. There are no
  symbolic links, and every file belongs to the user of the process. Of an
  \<open>os.FileMode\<close> the permission bits (\<open>0777\<close>) are kept and the directory bit (bit 31)
  is read.
\<close>

datatype node = File string "32 word" | Dir "32 word"

type_synonym filesystem = "location \<rightharpoonup> node"

definition mode_0777 :: "32 word" where "mode_0777 = 511"
definition mode_0755 :: "32 word" where "mode_0755 = 493"
definition mode_0700 :: "32 word" where "mode_0700 = 448"
definition mode_0666 :: "32 word" where "mode_0666 = 438"
definition ModeDir :: "32 word" where "ModeDir = 2147483648"

definition Perm :: "32 word \<Rightarrow> 32 word" where
  "Perm m = m AND mode_0777"

definition IsDir :: "32 word \<Rightarrow> bool" where
  "IsDir m = bit m 31"

definition fixed :: "location \<Rightarrow> bool" where
  "fixed k = list_all (\<lambda>c. c = ''..'') (snd k)"

definition isDirAt :: "filesystem \<Rightarrow> location \<Rightarrow> bool" where
  "isDirAt f k = (fixed k \<or> (case f k of Some (Dir m) \<Rightarrow> True | _ \<Rightarrow> False))"

definition isFileAt :: "filesystem \<Rightarrow> location \<Rightarrow> bool" where
  "isFileAt f k = (\<not> fixed k \<and> (case f k of Some (File c m) \<Rightarrow> True | _ \<Rightarrow> False))"

definition parent :: "location \<Rightarrow> location" where
  "parent k = (fst k, butlast (snd k))"

text \<open>The locations from the first component of \<open>k\<close> down to \<open>k\<close> itself.\<close>

definition ancestors :: "location \<Rightarrow> location list" where
  "ancestors k = map (\<lambda>n. (fst k, take n (snd k))) [1..<Suc (length (snd k))]"

subsection \<open>The host and the state of a run\<close>

record Response =
  StatusCode :: nat
  Body :: string

record RepositoryRelease =
  TagName :: "string option"

text \<open>An entry of an opened ZIP archive: \<open>Open\<close> is the result of \<open>file.Open()\<close>.\<close>

record zip_File =
  Name :: string
  Mode :: "32 word"
  Open :: "error + string"

record gzip_Reader =
  gzName :: string
  gzData :: string

text \<open>The client of the GitHub API, with the access token it was made with (if any).\<close>

datatype github_Client = NewClient "string option"

text \<open>
  What the program reads from its host and cannot decide by itself: the platform
  constants, the environment, the search path, the answers of the network and of the
  commands it runs, the decoders of the archive formats, the file mode creation mask
  of the process (\<open>umask\<close>) and whether it runs as the superuser, and for each system call
  the error the host raises for a reason outside the directory structure and the
  permission bits (a full disk, a read-only device, a broken connection). \<open>copyFault\<close>
  gives the number of bytes written before the error. The search path is read from the
  host once and for all: no file the program writes is looked up by \<open>exec.LookPath\<close>
  afterwards.
\<close>

record host =
  GOOS :: string
  GOARCH :: string
  HomeDir :: string
  Getenv :: "string \<Rightarrow> string"
  LookPath :: "string \<Rightarrow> error option"
  Output :: "string list \<Rightarrow> error + string"
  Run :: "string list \<Rightarrow> error option"
  Get :: "string \<Rightarrow> error + Response"
  GetLatestRelease :: "github_Client \<Rightarrow> string \<Rightarrow> string \<Rightarrow> error + RepositoryRelease"
  zip_NewReader :: "string \<Rightarrow> error + zip_File list"
  gzip_NewReader :: "string \<Rightarrow> error + gzip_Reader"
  statFault :: "string \<Rightarrow> error option"
  mkdirFault :: "string \<Rightarrow> error option"
  openFault :: "string \<Rightarrow> error option"
  copyFault :: "string \<Rightarrow> (nat \<times> error) option"
  chmodFault :: "string \<Rightarrow> error option"
  umask :: "32 word"
  superuser :: bool

datatype arg = S string | V Version | E "error option"

datatype level = Info | Warn | Err | Success | Fatal

datatype event =
    Log level string "arg list"
  | LookedUp string
  | Executed "string list"
  | Requested string
  | Queried string string

record world =
  fs :: filesystem
  trace :: "event list"
  githubClient :: "github_Client option"

definition emit :: "event \<Rightarrow> world \<Rightarrow> world" where
  "emit e w = w\<lparr>trace := trace w @ [e]\<rparr>"

text \<open>
  How a call ends: it returns, or the process exits inside it (\<open>util.Fatalf\<close>), or it
  formats with a verb of \<open>fmt\<close> that this development does not follow (see \<open>Sprintf\<close>).
\<close>

datatype 'a outcome = Return 'a | Exit | Unmodelled

definition after ::
  "'a outcome \<times> world \<Rightarrow> ('a \<Rightarrow> world \<Rightarrow> 'b outcome \<times> world) \<Rightarrow> 'b outcome \<times> world" where
  "after r k =
     (case r of
        (Return x, w) \<Rightarrow> k x w
      | (Exit, w) \<Rightarrow> (Exit, w)
      | (Unmodelled, w) \<Rightarrow> (Unmodelled, w))"

subsection \<open>Logging (package util)\<close>

text \<open>
  Modelled from the spec: package \<open>util\<close> of the repository (\<open>Infof\<close>, \<open>Warnf\<close>,
  \<open>Errorf\<close>, \<open>Successf\<close>, \<open>Success\<close>, \<open>Fatalf\<close>) is not among the sources. By the spec
  every step logs success or failure distinctly, failures are warnings, and an
  unresolvable home directory is fatal and terminates the run. So each function records
  its format and operands at its own level and returns, except \<open>Fatalf\<close>, after which the
  process has exited. That \<open>Errorf\<close> returns is also how install.go uses it: all but one
  of its calls are followed by \<open>return err\<close>.
\<close>

definition util_Infof :: "string \<Rightarrow> arg list \<Rightarrow> world \<Rightarrow> world" where
  "util_Infof format a w = emit (Log Info format a) w"

definition util_Warnf :: "string \<Rightarrow> arg list \<Rightarrow> world \<Rightarrow> world" where
  "util_Warnf format a w = emit (Log Warn format a) w"

definition util_Errorf :: "string \<Rightarrow> arg list \<Rightarrow> world \<Rightarrow> world" where
  "util_Errorf format a w = emit (Log Err format a) w"

definition util_Successf :: "string \<Rightarrow> arg list \<Rightarrow> world \<Rightarrow> world" where
  "util_Successf format a w = emit (Log Success format a) w"

definition util_Success :: "string \<Rightarrow> world \<Rightarrow> world" where
  "util_Success msg w = emit (Log Success msg []) w"

definition util_Fatalf :: "string \<Rightarrow> arg list \<Rightarrow> world \<Rightarrow> 'a outcome \<times> world" where
  "util_Fatalf format a w = (Exit, emit (Log Fatal format a) w)"

subsection \<open>Formatting (package fmt)\<close>

text \<open>
  \<open>fmt.Sprintf\<close> for the formats whose verbs are \<open>%s\<close>, \<open>%v\<close> and \<open>%%\<close>, with operands
  that are strings, versions (printed by their \<open>String\<close> method) or errors (printed by
  their message). A verb without an operand prints \<open>%!s(MISSING)\<close> as in Go. Any other
  use of \<open>%\<close>, and an operand left over, is outside the fragment: \<open>None\<close>.
\<close>

fun arg_String :: "char \<Rightarrow> arg \<Rightarrow> string" where
  "arg_String verb (S s) = s"
| "arg_String verb (V v) = Version_String v"
| "arg_String verb (E (Some e)) = message e"
| "arg_String verb (E None) = (if verb = CHR ''v'' then ''<nil>'' else ''%!s(<nil>)'')"

fun Sprintf :: "string \<Rightarrow> arg list \<Rightarrow> string option" where
  "Sprintf [] [] = Some []"
| "Sprintf [] (a # as) = None"
| "Sprintf [c] as = (if c = CHR ''%'' then None else map_option ((#) c) (Sprintf [] as))"
| "Sprintf (c # d # cs) as =
     (if c \<noteq> CHR ''%'' then map_option ((#) c) (Sprintf (d # cs) as)
      else if d = CHR ''%'' then map_option ((#) CHR ''%'') (Sprintf cs as)
      else if d = CHR ''s'' \<or> d = CHR ''v'' then
        (case as of
           [] \<Rightarrow> map_option ((@) ([CHR ''%'', CHR ''!'', d] @ ''(MISSING)'')) (Sprintf cs [])
         | a # as' \<Rightarrow> map_option ((@) (arg_String d a)) (Sprintf cs as'))
      else None)"

subsection \<open>System calls and library calls\<close>

text \<open>
  The kernel finds a file by walking its name component by component. Before each
  component the directory reached so far is entered: it has to exist, to be a directory
  and to grant the process the search right. The empty component and \<open>.\<close> stay in that
  directory, \<open>..\<close> goes to the one above, any other component to the entry of that name.
  So \<open>x/..\<close> names the directory of \<open>x\<close> only where \<open>x\<close> is a directory that may be
  searched, and a name with a final separator names a directory or nothing. The empty
  name names nothing. The owner's bits decide what the process may do; for the superuser
  the kernel skips these checks. The fixed directories may be searched and written to
  (where they may not, the host raises a fault).
\<close>

definition searchable :: "host \<Rightarrow> 32 word \<Rightarrow> bool" where
  "searchable h m = (superuser h \<or> bit m 6)"

definition writable :: "host \<Rightarrow> 32 word \<Rightarrow> bool" where
  "writable h m = (superuser h \<or> bit m 7)"

definition readable :: "host \<Rightarrow> 32 word \<Rightarrow> bool" where
  "readable h m = (superuser h \<or> bit m 8)"

definition enter :: "host \<Rightarrow> filesystem \<Rightarrow> location \<Rightarrow> error option" where
  "enter h f k =
     (if fixed k then None
      else (case f k of
              None \<Rightarrow> Some ENOENT
            | Some (File c m) \<Rightarrow> Some ENOTDIR
            | Some (Dir m) \<Rightarrow> if searchable h m then None else Some EACCES))"

fun walk_comps ::
  "host \<Rightarrow> filesystem \<Rightarrow> bool \<Rightarrow> string list \<Rightarrow> string list \<Rightarrow> error + location" where
  "walk_comps h f rooted out [] = Inr (rooted, out)"
| "walk_comps h f rooted out (c # cs) =
     (case enter h f (rooted, out) of
        Some e \<Rightarrow> Inl e
      | None \<Rightarrow> walk_comps h f rooted (clean_step rooted out c) cs)"

definition walk :: "host \<Rightarrow> filesystem \<Rightarrow> string \<Rightarrow> error + location" where
  "walk h f name =
     (if name = [] then Inl ENOENT
      else walk_comps h f (fst (resolve name)) [] (strings_Split name (CHR ''/'')))"

text \<open>Whether the process may add an entry to the directory at \<open>k\<close>.\<close>

definition dir_writable :: "host \<Rightarrow> filesystem \<Rightarrow> location \<Rightarrow> bool" where
  "dir_writable h f k =
     (fixed k \<or> (case f k of Some (Dir m) \<Rightarrow> writable h m | _ \<Rightarrow> False))"

text \<open>\<open>stat\<close>: whether the name is that of a directory (\<open>True\<close>) or of a file.\<close>

definition stat_IsDir :: "host \<Rightarrow> filesystem \<Rightarrow> string \<Rightarrow> error + bool" where
  "stat_IsDir h f name =
     (case walk h f name of
        Inl e \<Rightarrow> Inl e
      | Inr k \<Rightarrow>
          if isDirAt f k then Inr True
          else if isFileAt f k then Inr False
          else Inl ENOENT)"

definition os_Stat :: "host \<Rightarrow> string \<Rightarrow> world \<Rightarrow> error option" where
  "os_Stat h name w =
     (case statFault h name of
        Some e \<Rightarrow> Some e
      | None \<Rightarrow> (case stat_IsDir h (fs w) name of Inl e \<Rightarrow> Some e | Inr _ \<Rightarrow> None))"

text \<open>
  \<open>mkdir\<close>: final separators of the name are ignored; the new directory gets the
  permission bits asked for, less those of the mask.
\<close>

definition trimSeparators :: "string \<Rightarrow> string" where
  "trimSeparators name =
     (let t = rev (dropWhile os_IsPathSeparator (rev name))
      in if t = [] then take 1 name else t)"

definition mkdir :: "host \<Rightarrow> string \<Rightarrow> 32 word \<Rightarrow> filesystem \<Rightarrow> error + filesystem" where
  "mkdir h name perm f =
     (case walk h f (trimSeparators name) of
        Inl e \<Rightarrow> Inl e
      | Inr k \<Rightarrow>
          if fixed k \<or> f k \<noteq> None then Inl EEXIST
          else if dir_writable h f (parent k)
          then Inr (f(k \<mapsto> Dir (Perm perm AND NOT (umask h))))
          else Inl EACCES)"

text \<open>
  \<open>os.MkdirAll\<close> as package \<open>os\<close> has it: nothing to do where the name is that of a
  directory, an error where it is that of a file; otherwise the directory named by the
  text before the last component is made first (\<open>parentPrefix\<close> is that text with its
  separator, \<open>path[:j]\<close> of the Go source), then the directory itself, and a failure of
  that last step counts only if the directory is still not there. What was made before
  a failure stays.
\<close>

definition parentPrefix :: "string \<Rightarrow> string" where
  "parentPrefix path =
     rev (dropWhile (\<lambda>c. \<not> os_IsPathSeparator c) (dropWhile os_IsPathSeparator (rev path)))"

function MkdirAll ::
  "host \<Rightarrow> string \<Rightarrow> 32 word \<Rightarrow> filesystem \<Rightarrow> error option \<times> filesystem" where
  "MkdirAll h path perm f =
     (case stat_IsDir h f path of
        Inr True \<Rightarrow> (None, f)
      | Inr False \<Rightarrow> (Some ENOTDIR, f)
      | Inl _ \<Rightarrow>
          (case (if length (parentPrefix path) > 1
                 then MkdirAll h (butlast (parentPrefix path)) perm f
                 else (None, f)) of
             (Some err, f) \<Rightarrow> (Some err, f)
           | (None, f) \<Rightarrow>
               (case mkdir h path perm f of
                  Inr f \<Rightarrow> (None, f)
                | Inl err \<Rightarrow>
                    (case stat_IsDir h f path of
                       Inr True \<Rightarrow> (None, f)
                     | _ \<Rightarrow> (Some err, f)))))"
  by pat_completeness auto

termination
proof (relation "measure (\<lambda>(h, path, perm, f). length path)")
  show "wf (measure (\<lambda>(h, path, perm, f). length path))" by simp
next
  fix h :: host and path :: string and perm :: "32 word" and f :: filesystem and x :: error
  assume "1 < length (parentPrefix path)"
  moreover have "length (parentPrefix path) \<le> length path"
    unfolding parentPrefix_def
    by (metis length_rev length_dropWhile_le le_trans)
  ultimately show "((h, butlast (parentPrefix path), perm, f), (h, path, perm, f))
        \<in> measure (\<lambda>(h, path, perm, f). length path)"
    by simp
qed

declare MkdirAll.simps [simp del]

definition os_MkdirAll :: "host \<Rightarrow> string \<Rightarrow> 32 word \<Rightarrow> world \<Rightarrow> error option \<times> world" where
  "os_MkdirAll h path perm w =
     (case mkdirFault h path of
        Some e \<Rightarrow> (Some e, w)
      | None \<Rightarrow> (case MkdirAll h path perm (fs w) of (err, f) \<Rightarrow> (err, w\<lparr>fs := f\<rparr>)))"

text \<open>
  \<open>os.OpenFile\<close> with the flags \<open>O_WRONLY|O_CREATE|O_TRUNC\<close> (and \<open>os.Create\<close>, the same
  with \<open>O_RDWR\<close> and mode \<open>0666\<close>): an existing file has to be writable, is emptied and
  keeps its mode; a new file needs a directory that may be written to and gets the bits
  asked for, less those of the mask. The open file is written at the location where it
  was opened.
\<close>

definition os_OpenFile :: "host \<Rightarrow> string \<Rightarrow> 32 word \<Rightarrow> world \<Rightarrow> error option \<times> world" where
  "os_OpenFile h name perm w =
     (case openFault h name of
        Some e \<Rightarrow> (Some e, w)
      | None \<Rightarrow>
          (case walk h (fs w) name of
             Inl e \<Rightarrow> (Some e, w)
           | Inr k \<Rightarrow>
               if isDirAt (fs w) k then (Some EISDIR, w)
               else
                 (case fs w k of
                    Some (File c m) \<Rightarrow>
                      if writable h m then (None, w\<lparr>fs := (fs w)(k \<mapsto> File [] m)\<rparr>)
                      else (Some EACCES, w)
                  | _ \<Rightarrow>
                      if dir_writable h (fs w) (parent k)
                      then (None, w\<lparr>fs := (fs w)(k \<mapsto> File [] (Perm perm AND NOT (umask h)))\<rparr>)
                      else (Some EACCES, w))))"

definition os_Create :: "host \<Rightarrow> string \<Rightarrow> world \<Rightarrow> error option \<times> world" where
  "os_Create h name w = os_OpenFile h name mode_0666 w"

text \<open>\<open>os.Open\<close> and the reading of the whole file, as one step.\<close>

definition os_Open :: "host \<Rightarrow> string \<Rightarrow> world \<Rightarrow> error + string" where
  "os_Open h name w =
     (case openFault h name of
        Some e \<Rightarrow> Inl e
      | None \<Rightarrow>
          (case walk h (fs w) name of
             Inl e \<Rightarrow> Inl e
           | Inr k \<Rightarrow>
               if isDirAt (fs w) k then Inl EISDIR
               else
                 (case fs w k of
                    Some (File c m) \<Rightarrow> if readable h m then Inr c else Inl EACCES
                  | _ \<Rightarrow> Inl ENOENT)))"

definition append_file :: "location \<Rightarrow> string \<Rightarrow> filesystem \<Rightarrow> filesystem" where
  "append_file k data f = (case f k of Some (File c m) \<Rightarrow> f(k \<mapsto> File (c @ data) m) | _ \<Rightarrow> f)"

definition io_Copy :: "host \<Rightarrow> string \<Rightarrow> string \<Rightarrow> world \<Rightarrow> error option \<times> world" where
  "io_Copy h dst src w =
     (case copyFault h dst of
        Some (n, e) \<Rightarrow> (Some e, w\<lparr>fs := append_file (resolve dst) (take n src) (fs w)\<rparr>)
      | None \<Rightarrow> (None, w\<lparr>fs := append_file (resolve dst) src (fs w)\<rparr>))"

text \<open>\<open>os.Chmod\<close> sets the permission bits as given: the mask plays no part.\<close>

definition os_Chmod :: "host \<Rightarrow> string \<Rightarrow> 32 word \<Rightarrow> world \<Rightarrow> error option \<times> world" where
  "os_Chmod h name mode w =
     (case chmodFault h name of
        Some e \<Rightarrow> (Some e, w)
      | None \<Rightarrow>
          (case walk h (fs w) name of
             Inl e \<Rightarrow> (Some e, w)
           | Inr k \<Rightarrow>
               if fixed k then (None, w)
               else
                 (case fs w k of
                    Some (File c m) \<Rightarrow> (None, w\<lparr>fs := (fs w)(k \<mapsto> File c (Perm mode))\<rparr>)
                  | Some (Dir m) \<Rightarrow> (None, w\<lparr>fs := (fs w)(k \<mapsto> Dir (Perm mode))\<rparr>)
                  | None \<Rightarrow> (Some ENOENT, w))))"

definition zip_OpenReader :: "host \<Rightarrow> string \<Rightarrow> world \<Rightarrow> error + zip_File list" where
  "zip_OpenReader h name w =
     (case os_Open h name w of Inl e \<Rightarrow> Inl e | Inr c \<Rightarrow> zip_NewReader h c)"

definition http_Get :: "host \<Rightarrow> string \<Rightarrow> world \<Rightarrow> (error + Response) \<times> world" where
  "http_Get h url w = (Get h url, emit (Requested url) w)"

definition exec_LookPath :: "host \<Rightarrow> string \<Rightarrow> world \<Rightarrow> error option \<times> world" where
  "exec_LookPath h file w = (LookPath h file, emit (LookedUp file) w)"

definition exec_Output :: "host \<Rightarrow> string list \<Rightarrow> world \<Rightarrow> (error + string) \<times> world" where
  "exec_Output h cmd w = (Output h cmd, emit (Executed cmd) w)"

definition exec_Run :: "host \<Rightarrow> string list \<Rightarrow> world \<Rightarrow> error option \<times> world" where
  "exec_Run h cmd w = (Run h cmd, emit (Executed cmd) w)"

subsection \<open>The functions of install.go\<close>

definition getFabric8BinLocation :: "host \<Rightarrow> world \<Rightarrow> string outcome \<times> world" where
  "getFabric8BinLocation h w =
     (let home = HomeDir h in
      if home = [] then
        util_Fatalf ''No user home environment variable found for OS %s'' [S (GOOS h)] w
      else (Return (filepath_Join [home, binLocation]), w))"

text \<open>
  \<open>downloadFile\<close>. The result of \<open>os.Chmod\<close> is dropped; the test after it reads \<open>err\<close>,
  which still holds the result of \<open>io.Copy\<close>. The deferred \<open>Close\<close> calls have no effect
  here.
\<close>

definition downloadFile :: "host \<Rightarrow> string \<Rightarrow> string \<Rightarrow> world \<Rightarrow> error option \<times> world" where
  "downloadFile h filepath url w =
     (case os_Create h filepath w of
        (Some err, w) \<Rightarrow> (Some err, w)
      | (None, w) \<Rightarrow>
     (case http_Get h url w of
        (Inl err, w) \<Rightarrow> (Some err, w)
      | (Inr resp, w) \<Rightarrow>
     (case io_Copy h filepath (Body resp) w of
        (Some err, w) \<Rightarrow> (Some err, w)
      | (None, w) \<Rightarrow>
          (let err = None;
               w = snd (os_Chmod h filepath mode_0755 w)
           in if err \<noteq> None then (err, w) else (None, w)))))"

definition getLatestVersionFromGitHub ::
  "host \<Rightarrow> string \<Rightarrow> string \<Rightarrow> world \<Rightarrow> (error + Version) \<times> world" where
  "getLatestVersionFromGitHub h githubOwner githubRepo w =
     (let client =
            (case githubClient w of
               None \<Rightarrow>
                 (let token = Getenv h ''GH_TOKEN'';
                      tc = (if length token > 0 then Some token else None)
                  in NewClient tc)
             | Some c \<Rightarrow> c);
          w = w\<lparr>githubClient := Some client\<rparr>;
          w = emit (Queried githubOwner githubRepo) w
      in
      case GetLatestRelease h client githubOwner githubRepo of
        Inl err \<Rightarrow> (Inl err, w)
      | Inr release \<Rightarrow>
          (case TagName release of
             Some latestVersionString \<Rightarrow>
               (semver_Make (strings_TrimPrefix latestVersionString ''v''), w)
           | None \<Rightarrow> (Inl (errors_New ''Cannot get release name''), w)))"

definition downloadDriver :: "host \<Rightarrow> world \<Rightarrow> error option \<times> world" where
  "downloadDriver h w =
     (if GOOS h = ''darwin'' then
        (let w = util_Infof ''fabric8 recommends OSX users use the xhyve driver\<newline>'' [] w in
         case exec_Output h [''brew'', ''info'', ''docker-machine-driver-xhyve''] w of
           (info, w) \<Rightarrow>
             if (case info of Inl err \<Rightarrow> True | Inr out \<Rightarrow> strings_Contains out ''Not installed'')
             then
               (case exec_Run h [''brew'', ''install'', ''docker-machine-driver-xhyve''] w of
                  (Some err, w) \<Rightarrow> (Some err, w)
                | (None, w) \<Rightarrow>
               (case exec_Output h [''brew'', ''--prefix''] w of
                  (Inl err, w) \<Rightarrow> (Some err, w)
                | (Inr out, w) \<Rightarrow>
                    (let brewPrefix = strings_TrimSpace out;
                         file = brewPrefix
                           @ ''/opt/docker-machine-driver-xhyve/bin/docker-machine-driver-xhyve''
                     in
                     case exec_Run h [''sudo'', ''chown'', ''root:wheel'', file] w of
                       (Some err, w) \<Rightarrow> (Some err, w)
                     | (None, w) \<Rightarrow>
                     (case exec_Run h [''sudo'', ''chmod'', ''u+s'', file] w of
                        (Some err, w) \<Rightarrow> (Some err, w)
                      | (None, w) \<Rightarrow> (None, util_Success ''xhyve driver installed\<newline>'' w)))))
             else (None, util_Success ''xhyve driver already installed\<newline>'' w))
      else if GOOS h = ''linux'' then
        (Some (errors_New (''Driver install for '' @ GOOS h @ '' not yet supported'')), w)
      else (None, w))"

definition downloadKubernetes ::
  "host \<Rightarrow> downloadProperties \<Rightarrow> world \<Rightarrow> error option outcome \<times> world" where
  "downloadKubernetes h d w =
     (let os = GOOS h;
          arch = GOARCH h;
          d = (if GOOS h = ''windows'' then d\<lparr>kubeBinary := kubeBinary d @ ''.exe''\<rparr> else d)
      in
      case exec_LookPath h (kubeBinary d) w of
        (Some _, w) \<Rightarrow>
          (case getLatestVersionFromGitHub h (kubeDistroOrg d) (kubeDistroRepo d) w of
             (Inl err, w) \<Rightarrow>
               (Return (Some err),
                util_Errorf ''Unable to get latest version for %s/%s %v''
                  [S (kubeDistroOrg d), S (kubeDistroRepo d), E (Some err)] w)
           | (Inr latestVersion, w) \<Rightarrow>
               (case Sprintf (downloadURL d @ kubeDistroRepo d @ ''/releases/'' @ extraPath d
                                @ ''v%s/%s-%s-%s'')
                       [V latestVersion, S (kubeDistroRepo d), S os, S arch] of
                  None \<Rightarrow> (Unmodelled, w)
                | Some kubeURL \<Rightarrow>
                    (let kubeURL = (if GOOS h = ''windows'' then kubeURL @ ''.exe'' else kubeURL);
                         w = util_Infof ''Downloading %s...\<newline>'' [S kubeURL] w
                     in
                     after (getFabric8BinLocation h w) (\<lambda>writeFileLocation w.
                       case downloadFile h (writeFileLocation @ kubeBinary d) kubeURL w of
                         (Some err, w) \<Rightarrow>
                           (Return (Some err),
                            util_Errorf ''Unable to download file %s/%s %v''
                              [S (writeFileLocation @ kubeBinary d), S kubeURL, E (Some err)] w)
                       | (None, w) \<Rightarrow>
                           (Return None,
                            util_Successf ''Downloaded %s\<newline>'' [S (kubeBinary d)] w)))))
      | (None, w) \<Rightarrow>
          (Return None,
           util_Successf ''%s is already available on your PATH\<newline>'' [S (kubeBinary d)] w))"

definition downloadKubectlClient :: "host \<Rightarrow> world \<Rightarrow> error option outcome \<times> world" where
  "downloadKubectlClient h w =
     (let os = GOOS h;
          arch = GOARCH h
      in
      case exec_LookPath h kubectl w of
        (Some _, w) \<Rightarrow>
          (case getLatestVersionFromGitHub h kubernetes kubernetes w of
             (Inl err, w) \<Rightarrow>
               (case Sprintf ''Unable to get latest version for %s/%s %v''
                       [S kubernetes, S kubernetes, E (Some err)] of
                  None \<Rightarrow> (Unmodelled, w)
                | Some text \<Rightarrow> (Return (Some (errors_New text)), w))
           | (Inr latestVersion, w) \<Rightarrow>
               (case Sprintf
                       ''https://storage.googleapis.com/kubernetes-release/release/v%s/bin/%s/%s/%s''
                       [V latestVersion, S os, S arch, S kubectl] of
                  None \<Rightarrow> (Unmodelled, w)
                | Some clientURL \<Rightarrow>
                    (let clientURL =
                           (if GOOS h = ''windows'' then clientURL @ ''.exe'' else clientURL);
                         w = util_Infof ''Downloading %s...\<newline>'' [S clientURL] w
                     in
                     after (getFabric8BinLocation h w) (\<lambda>writeFileLocation w.
                       case downloadFile h (writeFileLocation @ kubectl) clientURL w of
                         (Some err, w) \<Rightarrow>
                           (Return (Some err),
                            util_Errorf ''Unable to download file %s/%s %v''
                              [S (writeFileLocation @ kubectl), S clientURL, E (Some err)] w)
                       | (None, w) \<Rightarrow>
                           (Return None, util_Successf ''Downloaded %s\<newline>'' [S kubectl] w)))))
      | (None, w) \<Rightarrow>
          (Return None,
           util_Successf ''%s is already available on your PATH\<newline>'' [S kubectl] w))"

text \<open>
  \<open>unzip\<close>: the loop over the entries of the archive. For a directory entry the result
  of \<open>os.MkdirAll\<close> is dropped. After \<open>os.Chmod\<close>, whose result is dropped too, the test
  reads the \<open>err\<close> of the loop body, last set by \<open>os.OpenFile\<close>.
\<close>

fun unzip_files :: "host \<Rightarrow> string \<Rightarrow> zip_File list \<Rightarrow> world \<Rightarrow> error option \<times> world" where
  "unzip_files h target [] w = (None, w)"
| "unzip_files h target (file # files) w =
     (let path = filepath_Join [target, Name file] in
      if IsDir (Mode file) then
        unzip_files h target files (snd (os_MkdirAll h path (Mode file) w))
      else
        (case Open file of
           Inl err \<Rightarrow> (Some err, w)
         | Inr fileReader \<Rightarrow>
        (case os_OpenFile h path (Mode file) w of
           (Some err, w) \<Rightarrow> (Some err, w)
         | (None, w) \<Rightarrow>
        (case io_Copy h path fileReader w of
           (Some err, w) \<Rightarrow> (Some err, w)
         | (None, w) \<Rightarrow>
             (let err = None;
                  w = snd (os_Chmod h path mode_0755 w)
              in if err \<noteq> None then (err, w) else unzip_files h target files w)))))"

definition unzip :: "host \<Rightarrow> string \<Rightarrow> string \<Rightarrow> world \<Rightarrow> error option \<times> world" where
  "unzip h archive target w =
     (case zip_OpenReader h archive w of
        Inl err \<Rightarrow> (Some err, w)
      | Inr reader \<Rightarrow>
     (case os_MkdirAll h target mode_0755 w of
        (Some err, w) \<Rightarrow> (Some err, w)
      | (None, w) \<Rightarrow> unzip_files h target reader w))"

definition ungzip :: "host \<Rightarrow> string \<Rightarrow> string \<Rightarrow> world \<Rightarrow> error option \<times> world" where
  "ungzip h source target w =
     (case os_Open h source w of
        Inl err \<Rightarrow> (Some err, w)
      | Inr reader \<Rightarrow>
     (case gzip_NewReader h reader of
        Inl err \<Rightarrow> (Some err, w)
      | Inr archive \<Rightarrow>
          (let target = filepath_Join [target, gzName archive] in
           case os_Create h target w of
             (Some err, w) \<Rightarrow> (Some err, w)
           | (None, w) \<Rightarrow>
           (case io_Copy h target (gzData archive) w of
              (Some err, w) \<Rightarrow> (Some err, w)
            | (None, w) \<Rightarrow>
                (let err = None;
                     w = snd (os_Chmod h target mode_0755 w)
                 in if err \<noteq> None then (err, w) else (err, w))))))"

definition downloadOpenShiftClient :: "host \<Rightarrow> world \<Rightarrow> error option outcome \<times> world" where
  "downloadOpenShiftClient h w =
     (let os = GOOS h;
          arch = GOARCH h
      in
      case exec_LookPath h ''oc'' w of
        (Some _, w) \<Rightarrow>
          (let sha = ''565691c'';
               latestVersion = ''1.2.2''
           in
           case Sprintf
                  ''https://github.com/openshift/origin/releases/download/v%s/openshift-origin-client-tools-v%s-%s''
                  [S latestVersion, S latestVersion, S sha] of
             None \<Rightarrow> (Unmodelled, w)
           | Some clientURL \<Rightarrow>
           (case (if GOOS h = ''windows'' then Some (clientURL @ ''-windows.zip'')
                  else if GOOS h = ''darwin'' then Some (clientURL @ ''-mac.zip'')
                  else map_option ((@) clientURL)
                         (Sprintf (clientURL @ ''-%s-%s.tar.gz'') [S os, S arch])) of
              None \<Rightarrow> (Unmodelled, w)
            | Some clientURL \<Rightarrow>
                (let w = util_Infof ''Downloading %s...\<newline>'' [S clientURL] w in
                 after (getFabric8BinLocation h w) (\<lambda>writeFileLocation w.
                   case downloadFile h (writeFileLocation @ oc @ ''.zip'') clientURL w of
                     (Some err, w) \<Rightarrow>
                       (Return (Some err),
                        util_Errorf ''Unable to download file %s/%s %v''
                          [S (writeFileLocation @ oc), S clientURL, E (Some err)] w)
                   | (None, w) \<Rightarrow>
                       (case
                          (if GOOS h = ''windows'' then
                             (case unzip h (writeFileLocation @ oc @ ''.zip'')
                                     (writeFileLocation @ ''.'') w of
                                (Some err, w) \<Rightarrow>
                                  (Some err,
                                   util_Errorf ''Unable to unzip %s %v''
                                     [S (writeFileLocation @ oc @ ''.zip''), E (Some err)] w)
                              | (None, w) \<Rightarrow> (None, w))
                           else if GOOS h = ''darwin'' then
                             (case unzip h (writeFileLocation @ oc @ ''.zip'')
                                     (writeFileLocation @ ''.'') w of
                                (Some err, w) \<Rightarrow>
                                  (Some err,
                                   util_Errorf ''Unable to unzip %s %v''
                                     [S (writeFileLocation @ oc @ ''.zip''), E (Some err)] w)
                              | (None, w) \<Rightarrow> (None, w))
                           else
                             (case unzip h (writeFileLocation @ oc @ ''.tar.gz'')
                                     (writeFileLocation @ ''.'') w of
                                (Some err, w) \<Rightarrow>
                                  (Some err,
                                   util_Errorf ''Unable to untar %s %v''
                                     [S (writeFileLocation @ oc @ ''.tar.gz''), E (Some err)] w)
                              | (None, w) \<Rightarrow> (None, w))) of
                          (Some err, w) \<Rightarrow> (Return (Some err), w)
                        | (None, w) \<Rightarrow>
                            (Return None, util_Successf ''Downloaded %s\<newline>'' [S oc] w))))))
      | (None, w) \<Rightarrow>
          (Return None,
           util_Successf ''%s is already available on your PATH\<newline>'' [S oc] w))"

definition install :: "host \<Rightarrow> bool \<Rightarrow> world \<Rightarrow> unit outcome \<times> world" where
  "install h isMinishift w =
     after (getFabric8BinLocation h w) (\<lambda>writeFileLocation w.
       case os_MkdirAll h writeFileLocation mode_0700 w of
         (err, w) \<Rightarrow>
       (let w = (if err \<noteq> None then
                   util_Errorf ''Unable to create directory to download files %s %v\<newline>''
                     [S writeFileLocation, E err] w
                 else w)
        in
        case downloadDriver h w of
          (err, w) \<Rightarrow>
        (let w = (if err \<noteq> None then util_Warnf ''Unable to download driver %v\<newline>'' [E err] w
                  else w);
             d = getDownloadProperties isMinishift
         in
         after (downloadKubernetes h d w) (\<lambda>err w.
           let w = (if err \<noteq> None then
                      util_Warnf ''Unable to download kubernetes distro %v\<newline>'' [E err] w
                    else w)
           in
           after (downloadKubectlClient h w) (\<lambda>err w.
             let w = (if err \<noteq> None then
                        util_Warnf ''Unable to download client %v\<newline>'' [E err] w
                      else w)
             in
             if isMiniShift d then
               after (downloadOpenShiftClient h w) (\<lambda>err w.
                 (Return (),
                  if err \<noteq> None then util_Warnf ''Unable to download client %v\<newline>'' [E err] w
                  else w))
             else (Return (), w))))))"

text \<open>The \<open>Run\<close> function of the command: the flag is read as its text.\<close>

definition NewCmdInstall_Run :: "host \<Rightarrow> string \<Rightarrow> world \<Rightarrow> unit outcome \<times> world" where
  "NewCmdInstall_Run h flagValue w = install h (flagValue = ''true'') w"

definition isInstalled :: "host \<Rightarrow> bool \<Rightarrow> world \<Rightarrow> bool outcome \<times> world" where
  "isInstalled h isMinishift w =
     (let home = HomeDir h in
      after (if home = [] then
               util_Fatalf ''No user home environment variable found for OS %s'' [S (GOOS h)] w
             else (Return (), w))
        (\<lambda>_ w.
           if os_IsNotExist (os_Stat h (home @ ''/.kube/config'') w) then (Return False, w)
           else
             (case exec_LookPath h kubectl w of
                (Some _, w) \<Rightarrow> (Return False, w)
              | (None, w) \<Rightarrow>
                  if isMinishift then
                    (case exec_LookPath h minishift w of
                       (Some _, w) \<Rightarrow> (Return False, w)
                     | (None, w) \<Rightarrow>
                         (case exec_LookPath h oc w of
                            (Some _, w) \<Rightarrow> (Return False, w)
                          | (None, w) \<Rightarrow> (Return True, w)))
                  else
                    (case exec_LookPath h minikube w of
                       (Some _, w) \<Rightarrow> (Return False, w)
                     | (None, w) \<Rightarrow> (Return True, w)))))"

subsection \<open>Directory trees and their archives\<close>

text \<open>
  A directory tree: a file has a name, its bytes and its permission bits; a directory
  has a name, its permission bits and what it holds. A name is plain when it can be the
  name of a directory entry: not empty, not \<open>.\<close> or \<open>..\<close>, without a separator. In a
  well-formed tree all names are plain and no directory holds a name twice.
\<close>

datatype tree = TFile string string "32 word" | TDir string "32 word" "tree list"

fun treeName :: "tree \<Rightarrow> string" where
  "treeName (TFile n c m) = n"
| "treeName (TDir n m ts) = n"




text \<open>The tree found by walking a relative path from the top of the trees \<open>ts\<close>.\<close>

fun treeAt :: "tree list \<Rightarrow> string list \<Rightarrow> tree option" where
  "treeAt ts [] = None"
| "treeAt ts (n # p) =
     (case find (\<lambda>t. treeName t = n) ts of
        None \<Rightarrow> None
      | Some t \<Rightarrow>
          if p = [] then Some t
          else (case t of TDir n' m cs \<Rightarrow> treeAt cs p | TFile n' c m \<Rightarrow> None))"



text \<open>
  What a tree looks like once extracted on the host \<open>h\<close>: a file with its bytes and the
  bits \<open>0755\<close>, a directory with its own bits less those of the mask; and the file system
  with the trees \<open>ts\<close> put under the directory at \<open>k\<close>.
\<close>

fun extracted :: "host \<Rightarrow> tree \<Rightarrow> node" where
  "extracted h (TFile n c m) = File c mode_0755"
| "extracted h (TDir n m ts) = Dir (Perm m AND NOT (umask h))"



subsection \<open>Notions for the extraction of a packed tree\<close>






text \<open>
  What is found at the relative path \<open>p\<close> below the place of the tree \<open>t\<close>, where \<open>dflt\<close>
  was before \<open>t\<close> was put there.
\<close>

definition found :: "host \<Rightarrow> tree \<Rightarrow> string list \<Rightarrow> node option \<Rightarrow> node option" where
  "found h t p dflt =
     (if p = [] then Some (extracted h t)
      else (case t of
              TDir n m cs \<Rightarrow>
                (case treeAt cs p of Some t' \<Rightarrow> Some (extracted h t') | None \<Rightarrow> dflt)
            | TFile n c m \<Rightarrow> dflt))"

subsection \<open>Example hosts\<close>

text \<open>
  Concrete hosts and states, on which the functions are evaluated below. \<open>bareHost\<close> is
  a Linux machine with the home directory \<open>/h\<close>, nothing on the search path, a network
  that answers every request with status 200 and the body \<open>ELF\<close>, \<open>v0.10.0\<close> as the
  latest release of every repository, and no fault of its own; the process is an
  ordinary user with the mask \<open>000\<close>. The two archive decoders know one archive each:
  \<open>PK\<close> holds a directory \<open>e/\<close> and a read-only file \<open>f\<close>, and \<open>GZ\<close> holds the file \<open>g\<close>.
\<close>

definition notFound :: error where
  "notFound = Error ''executable file not found in $PATH'' False"

definition permissionDenied :: error where
  "permissionDenied = Error ''permission denied'' False"

definition connectionRefused :: error where
  "connectionRefused = Error ''connection refused'' False"

definition unexpectedEOF :: error where
  "unexpectedEOF = Error ''unexpected EOF'' False"

definition exampleZip :: "zip_File list" where
  "exampleZip =
     [\<lparr>Name = ''e/'', Mode = ModeDir OR mode_0755, Open = Inr []\<rparr>,
      \<lparr>Name = ''f'', Mode = 292, Open = Inr ''data''\<rparr>]"

definition bareHost :: host where
  "bareHost =
     \<lparr>GOOS = ''linux'', GOARCH = ''amd64'', HomeDir = ''/h'', Getenv = (\<lambda>_. []),
      LookPath = (\<lambda>_. Some notFound),
      Output = (\<lambda>_. Inr []),
      Run = (\<lambda>_. None),
      Get = (\<lambda>_. Inr \<lparr>StatusCode = 200, Body = ''ELF''\<rparr>),
      GetLatestRelease = (\<lambda>_ _ _. Inr \<lparr>TagName = Some ''v0.10.0''\<rparr>),
      zip_NewReader =
        (\<lambda>c. if c = ''PK'' then Inr exampleZip else Inl (errors_New ''zip: not a valid zip file'')),
      gzip_NewReader =
        (\<lambda>c. if c = ''GZ'' then Inr \<lparr>gzName = ''g'', gzData = ''data''\<rparr>
             else Inl (errors_New ''gzip: invalid header'')),
      statFault = (\<lambda>_. None), mkdirFault = (\<lambda>_. None), openFault = (\<lambda>_. None),
      copyFault = (\<lambda>_. None), chmodFault = (\<lambda>_. None),
      umask = 0, superuser = False\<rparr>"

text \<open>The home directory \<open>/h\<close> with the two archives \<open>/h/a.zip\<close> and \<open>/h/a.gz\<close>.\<close>

definition homeWorld :: world where
  "homeWorld =
     \<lparr>fs = [(True, [''h'']) \<mapsto> Dir mode_0755,
            (True, [''h'', ''a.zip'']) \<mapsto> File ''PK'' 420,
            (True, [''h'', ''a.gz'']) \<mapsto> File ''GZ'' 420],
      trace = [], githubClient = None\<rparr>"





text \<open>The state after the install directory \<open>/h/.fabric8/bin\<close> has been made.\<close>

definition binWorld :: world where
  "binWorld =
     homeWorld\<lparr>fs := (fs homeWorld)
       ((True, [''h'', ''.fabric8'']) \<mapsto> Dir mode_0700,
        (True, [''h'', ''.fabric8'', ''bin'']) \<mapsto> Dir mode_0700)\<rparr>"

section \<open>Properties\<close>

lemmas host_examples =
  bareHost_def homeWorld_def binWorld_def exampleZip_def notFound_def permissionDenied_def
  connectionRefused_def unexpectedEOF_def


lemmas path_defs =
  resolve_def clean_step_def os_IsPathSeparator_def filepath_Join_def filepath_Clean_def
  ancestors_def parent_def

lemmas fs_defs =
  os_Stat_def os_MkdirAll_def os_OpenFile_def os_Create_def os_Open_def io_Copy_def
  os_Chmod_def zip_OpenReader_def append_file_def isDirAt_def isFileAt_def fixed_def
  enter_def walk_def stat_IsDir_def dir_writable_def mkdir_def trimSeparators_def
  parentPrefix_def MkdirAll.simps searchable_def writable_def readable_def
  Perm_def IsDir_def ModeDir_def mode_0777_def mode_0755_def mode_0700_def
  mode_0666_def ENOENT_def ENOTDIR_def EISDIR_def EACCES_def EEXIST_def errors_New_def
  os_IsNotExist_def

lemmas call_defs =
  http_Get_def exec_LookPath_def exec_Output_def exec_Run_def emit_def after_def
  util_Infof_def util_Warnf_def util_Errorf_def util_Successf_def util_Success_def
  util_Fatalf_def

lemmas semver_defs =
  semver_Make_def semver_Parse_def parseNumber_def strconv_ParseUint_def containsOnly_def
  numbers_def alphas_def alphanum_def hasLeadingZeroes_def digitsValue_def cutAt_def
  NewPRVersion_def strings_TrimPrefix_def strings_HasPrefix_def Version_String_def digitChar_def
  FormatUint.simps

lemmas program_defs =
  install_def downloadDriver_def downloadKubernetes_def downloadKubectlClient_def
  downloadOpenShiftClient_def downloadFile_def unzip_def ungzip_def isInstalled_def
  getFabric8BinLocation_def getLatestVersionFromGitHub_def getDownloadProperties_def
  zeroDownloadProperties_def

subsection \<open>The platform resolver\<close>

text \<open>
  C4. \<open>getDownloadProperties\<close> is a total function of its flag. In minishift mode it
  returns exactly the set oc / minishift / jimmidyson / minishift / download/ / the
  minishift host with the flag true; in minikube mode exactly kubectl / minikube /
  kubernetes / minikube / no extra path / the storage host with the flag false. No
  field of one set appears in the result for the other mode, and the flag of the result
  is the requested mode.
\<close>

theorem getDownloadProperties_fixed_sets:
  "getDownloadProperties True =
     \<lparr>clientBinary = ''oc'', kubeDistroOrg = ''jimmidyson'', kubeDistroRepo = ''minishift'',
      kubeBinary = ''minishift'', extraPath = ''download/'',
      downloadURL = ''https://github.com/jimmidyson/'', isMiniShift = True\<rparr>
   \<and> getDownloadProperties False =
     \<lparr>clientBinary = ''kubectl'', kubeDistroOrg = ''kubernetes'', kubeDistroRepo = ''minikube'',
      kubeBinary = ''minikube'', extraPath = '''',
      downloadURL = ''https://storage.googleapis.com/'', isMiniShift = False\<rparr>
   \<and> (\<forall>b. isMiniShift (getDownloadProperties b) = b)"
  by (simp add: getDownloadProperties_def zeroDownloadProperties_def install_consts Let_def)

subsection \<open>The installation check\<close>

text \<open>
  C5, as amended. With a home directory, \<open>isInstalled\<close> returns false whenever
  \<open>os.Stat\<close> of \<open>.kube/config\<close> under it fails with an error of which \<open>os.IsNotExist\<close>
  holds, whatever the search path holds; and it returns true only when \<open>os.Stat\<close> does
  not fail so, kubectl is on the search path, and so are minishift and oc (minishift
  mode) or minikube (minikube mode). Every other outcome of \<open>os.Stat\<close>, a failure of
  another kind included, is not taken as absence: the result is then decided by the
  search path alone.
\<close>

theorem isInstalled_stat_and_search_path:
  assumes "HomeDir h \<noteq> []"
  shows
    "(os_IsNotExist (os_Stat h (HomeDir h @ ''/.kube/config'') w) \<longrightarrow>
        fst (isInstalled h isMinishift w) = Return False)
     \<and> (fst (isInstalled h isMinishift w) = Return True \<longrightarrow>
          \<not> os_IsNotExist (os_Stat h (HomeDir h @ ''/.kube/config'') w)
          \<and> LookPath h ''kubectl'' = None
          \<and> (if isMinishift then LookPath h ''minishift'' = None \<and> LookPath h ''oc'' = None
              else LookPath h ''minikube'' = None))
     \<and> (\<not> os_IsNotExist (os_Stat h (HomeDir h @ ''/.kube/config'') w) \<longrightarrow>
          fst (isInstalled h isMinishift w)
          = Return (LookPath h ''kubectl'' = None
                    \<and> (if isMinishift
                        then LookPath h ''minishift'' = None \<and> LookPath h ''oc'' = None
                        else LookPath h ''minikube'' = None)))"
proof (intro conjI impI)
  assume "os_IsNotExist (os_Stat h (HomeDir h @ ''/.kube/config'') w)"
  with assms show "fst (isInstalled h isMinishift w) = Return False"
    by (simp add: isInstalled_def after_def Let_def)
next
  assume t: "fst (isInstalled h isMinishift w) = Return True"
  with assms show "\<not> os_IsNotExist (os_Stat h (HomeDir h @ ''/.kube/config'') w)"
    by (auto simp: isInstalled_def after_def Let_def split: if_splits)
  from t assms show "LookPath h ''kubectl'' = None"
    by (auto simp: isInstalled_def after_def Let_def exec_LookPath_def kubectl_def
        split: if_splits option.splits)
  from t assms
  show "if isMinishift then LookPath h ''minishift'' = None \<and> LookPath h ''oc'' = None
        else LookPath h ''minikube'' = None"
    by (auto simp: isInstalled_def after_def Let_def exec_LookPath_def install_consts
        split: if_splits option.splits)
next
  assume "\<not> os_IsNotExist (os_Stat h (HomeDir h @ ''/.kube/config'') w)"
  with assms show "fst (isInstalled h isMinishift w)
          = Return (LookPath h ''kubectl'' = None
                    \<and> (if isMinishift
                        then LookPath h ''minishift'' = None \<and> LookPath h ''oc'' = None
                        else LookPath h ''minikube'' = None))"
    by (auto simp: isInstalled_def after_def Let_def exec_LookPath_def install_consts
        split: option.splits)
qed

text \<open>
  On \<open>bareHost\<close> with everything on the search path: no \<open>/h/.kube\<close>, and the check is
  false; with the config file in place, it is true.
\<close>

theorem isInstalled_stat_and_search_path_witness:
  "HomeDir (bareHost\<lparr>LookPath := (\<lambda>_. None)\<rparr>) \<noteq> []
   \<and> os_IsNotExist (os_Stat (bareHost\<lparr>LookPath := (\<lambda>_. None)\<rparr>) ''/h/.kube/config'' homeWorld)
   \<and> fst (isInstalled (bareHost\<lparr>LookPath := (\<lambda>_. None)\<rparr>) True homeWorld) = Return False
   \<and> \<not> os_IsNotExist (os_Stat (bareHost\<lparr>LookPath := (\<lambda>_. None)\<rparr>) ''/h/.kube/config''
            (homeWorld\<lparr>fs := (fs homeWorld)((True, [''h'', ''.kube'']) \<mapsto> Dir mode_0755,
                (True, [''h'', ''.kube'', ''config'']) \<mapsto> File ''apiVersion: v1'' 384)\<rparr>))
   \<and> fst (isInstalled (bareHost\<lparr>LookPath := (\<lambda>_. None)\<rparr>) False
            (homeWorld\<lparr>fs := (fs homeWorld)((True, [''h'', ''.kube'']) \<mapsto> Dir mode_0755,
                (True, [''h'', ''.kube'', ''config'']) \<mapsto> File ''apiVersion: v1'' 384)\<rparr>))
       = Return True
   \<and> fst (isInstalled (bareHost\<lparr>LookPath := (\<lambda>b. if b = ''minikube'' then Some notFound else None)\<rparr>)
            False
            (homeWorld\<lparr>fs := (fs homeWorld)((True, [''h'', ''.kube'']) \<mapsto> Dir mode_0755,
                (True, [''h'', ''.kube'', ''config'']) \<mapsto> File ''apiVersion: v1'' 384)\<rparr>))
       = Return False"
proof -
  let ?h = "bareHost\<lparr>LookPath := (\<lambda>_. None)\<rparr>"
  let ?h' = "bareHost\<lparr>LookPath := (\<lambda>b. if b = ''minikube'' then Some notFound else None)\<rparr>"
  let ?w = "homeWorld\<lparr>fs := (fs homeWorld)((True, [''h'', ''.kube'']) \<mapsto> Dir mode_0755,
                (True, [''h'', ''.kube'', ''config'']) \<mapsto> File ''apiVersion: v1'' 384)\<rparr>"
  have home: "HomeDir ?h \<noteq> []" "HomeDir ?h' \<noteq> []"
    by (simp_all add: bareHost_def)
  have eq: "HomeDir ?h @ ''/.kube/config'' = ''/h/.kube/config''"
    "HomeDir ?h' @ ''/.kube/config'' = ''/h/.kube/config''"
    by (simp_all add: bareHost_def)
  have absent: "os_IsNotExist (os_Stat ?h ''/h/.kube/config'' homeWorld)"
    by (simp add: host_examples path_defs fs_defs)
  have present: "\<not> os_IsNotExist (os_Stat ?h ''/h/.kube/config'' ?w)"
    "\<not> os_IsNotExist (os_Stat ?h' ''/h/.kube/config'' ?w)"
    by (simp_all add: host_examples path_defs fs_defs)
  have look: "LookPath ?h = (\<lambda>_. None)" "LookPath ?h' ''kubectl'' = None"
    "LookPath ?h' ''minikube'' \<noteq> None"
    by simp_all
  note a = isInstalled_stat_and_search_path[OF home(1), of homeWorld True, unfolded eq]
  note b = isInstalled_stat_and_search_path[OF home(1), of ?w False, unfolded eq]
  note c = isInstalled_stat_and_search_path[OF home(2), of ?w False, unfolded eq]
  from a absent have r1: "fst (isInstalled ?h True homeWorld) = Return False" by blast
  from b present(1) look(1) have r2: "fst (isInstalled ?h False ?w) = Return True" by simp
  from c present(2) look(2,3) have r3: "fst (isInstalled ?h' False ?w) = Return False" by simp
  from home(1) absent present(1) r1 r2 r3 show ?thesis by blast
qed

text \<open>
  The claim as stated fails: the config file is absent and the check still returns
  true, once because \<open>/h/.kube\<close> is a regular file (\<open>os.Stat\<close> fails with "not a
  directory"), once because \<open>/h/.kube\<close> is a directory the user may not search
  ("permission denied"), once because the host refuses the lookup.
\<close>

theorem isInstalled_absent_config_counterexample:
  "fs (homeWorld\<lparr>fs := (fs homeWorld)((True, [''h'', ''.kube'']) \<mapsto> File [] 420)\<rparr>)
      (True, [''h'', ''.kube'', ''config'']) = None
   \<and> os_Stat (bareHost\<lparr>LookPath := (\<lambda>_. None)\<rparr>) ''/h/.kube/config''
        (homeWorld\<lparr>fs := (fs homeWorld)((True, [''h'', ''.kube'']) \<mapsto> File [] 420)\<rparr>)
       = Some ENOTDIR
   \<and> fst (isInstalled (bareHost\<lparr>LookPath := (\<lambda>_. None)\<rparr>) False
            (homeWorld\<lparr>fs := (fs homeWorld)((True, [''h'', ''.kube'']) \<mapsto> File [] 420)\<rparr>))
       = Return True
   \<and> fs (homeWorld\<lparr>fs := (fs homeWorld)((True, [''h'', ''.kube'']) \<mapsto> Dir 0)\<rparr>)
      (True, [''h'', ''.kube'', ''config'']) = None
   \<and> os_Stat (bareHost\<lparr>LookPath := (\<lambda>_. None)\<rparr>) ''/h/.kube/config''
        (homeWorld\<lparr>fs := (fs homeWorld)((True, [''h'', ''.kube'']) \<mapsto> Dir 0)\<rparr>)
       = Some EACCES
   \<and> fst (isInstalled (bareHost\<lparr>LookPath := (\<lambda>_. None)\<rparr>) False
            (homeWorld\<lparr>fs := (fs homeWorld)((True, [''h'', ''.kube'']) \<mapsto> Dir 0)\<rparr>))
       = Return True
   \<and> fs homeWorld (True, [''h'', ''.kube'', ''config'']) = None
   \<and> fst (isInstalled
            (bareHost\<lparr>LookPath := (\<lambda>_. None), statFault := (\<lambda>_. Some permissionDenied)\<rparr>)
            True homeWorld)
       = Return True"
  by (simp add: isInstalled_def host_examples path_defs fs_defs call_defs install_consts
      Let_def)

subsection \<open>The fetcher\<close>

lemma Perm_0755: "Perm mode_0755 = mode_0755"
  by (simp add: Perm_def mode_0755_def mode_0777_def)

lemma Perm_0666: "Perm mode_0666 = mode_0666"
  by (simp add: Perm_def mode_0666_def mode_0777_def)

text \<open>A name that the kernel finds is found where the cleaned name points.\<close>

lemma walk_comps_foldl:
  "walk_comps h f r out cs = Inr k \<Longrightarrow> k = (r, foldl (clean_step r) out cs)"
  by (induction cs arbitrary: out) (auto split: option.splits)

lemma walk_resolve: "walk h f p = Inr k \<Longrightarrow> k = resolve p"
  by (auto simp: walk_def resolve_def Let_def split: if_splits dest: walk_comps_foldl)

text \<open>A file put where no directory was leaves every walk that succeeded as it was.\<close>

lemma enter_upd_File:
  "enter h f a = None \<Longrightarrow> \<not> isDirAt f k \<Longrightarrow> enter h (f(k \<mapsto> File c m)) a = None"
  by (auto simp: enter_def isDirAt_def split: if_splits option.splits node.splits)

lemma walk_comps_upd_File:
  "walk_comps h f r out cs = Inr k' \<Longrightarrow> \<not> isDirAt f k \<Longrightarrow>
     walk_comps h (f(k \<mapsto> File c m)) r out cs = Inr k'"
proof (induction cs arbitrary: out)
  case Nil
  then show ?case by simp
next
  case (Cons x cs)
  from Cons.prems(1) have e: "enter h f (r, out) = None"
    by (auto split: option.splits)
  with Cons.prems(1) have "walk_comps h f r (clean_step r out x) cs = Inr k'" by simp
  then have ih: "walk_comps h (f(k \<mapsto> File c m)) r (clean_step r out x) cs = Inr k'"
    by (rule Cons.IH[OF _ Cons.prems(2)])
  have e': "enter h (f(k \<mapsto> File c m)) (r, out) = None"
    by (rule enter_upd_File[OF e Cons.prems(2)])
  show ?case by (simp only: walk_comps.simps e' ih option.case)
qed

lemma walk_upd_File:
  "walk h f p = Inr k' \<Longrightarrow> \<not> isDirAt f k \<Longrightarrow> walk h (f(k \<mapsto> File c m)) p = Inr k'"
  by (auto simp: walk_def split: if_splits intro: walk_comps_upd_File)

text \<open>What \<open>os.Create\<close> does when it succeeds, and when it fails.\<close>

lemma os_Create_ok:
  assumes "fst (os_Create h p w) = None"
  shows "os_Create h p w
         = (None, w\<lparr>fs := (fs w)(resolve p \<mapsto>
               File [] (case fs w (resolve p) of Some (File c m) \<Rightarrow> m
                        | _ \<Rightarrow> mode_0666 AND NOT (umask h)))\<rparr>)"
    and "walk h (fs w) p = Inr (resolve p)" and "\<not> isDirAt (fs w) (resolve p)"
proof -
  from assms obtain k where k: "walk h (fs w) p = Inr k"
    by (cases "walk h (fs w) p")
       (auto simp: os_Create_def os_OpenFile_def split: option.splits)
  from walk_resolve[OF k] have kr: "k = resolve p" .
  with k show "walk h (fs w) p = Inr (resolve p)" by simp
  from assms k kr show nd: "\<not> isDirAt (fs w) (resolve p)"
    by (auto simp: os_Create_def os_OpenFile_def split: option.splits)
  from assms k kr nd show "os_Create h p w
         = (None, w\<lparr>fs := (fs w)(resolve p \<mapsto>
               File [] (case fs w (resolve p) of Some (File c m) \<Rightarrow> m
                        | _ \<Rightarrow> mode_0666 AND NOT (umask h)))\<rparr>)"
    by (auto simp: os_Create_def os_OpenFile_def Perm_0666 isDirAt_def
        split: option.splits node.splits if_splits)
qed

lemma os_Create_fail:
  "fst (os_Create h p w) = Some e \<Longrightarrow> os_Create h p w = (Some e, w)"
  by (auto simp: os_Create_def os_OpenFile_def
      split: option.splits node.splits if_splits sum.splits)

text \<open>The permission change of a file that was just opened under the same name.\<close>

lemma os_Chmod_written:
  assumes "chmodFault h p = None" and "walk h f p = Inr k" and "\<not> isDirAt f k"
    and "fs w = f(k \<mapsto> File c m)"
  shows "os_Chmod h p mode w = (None, w\<lparr>fs := f(k \<mapsto> File c (Perm mode))\<rparr>)"
proof -
  from assms(3) have "\<not> fixed k" by (simp add: isDirAt_def)
  with assms(1,4) walk_upd_File[OF assms(2,3), of c m] show ?thesis
    by (simp add: os_Chmod_def)
qed

text \<open>The run of \<open>downloadFile\<close> in which nothing fails.\<close>

lemma downloadFile_ok:
  assumes "fst (os_Create h p w) = None" and "Get h url = Inr resp"
    and "copyFault h p = None" and "chmodFault h p = None"
  shows "downloadFile h p url w
         = (None, w\<lparr>fs := (fs w)(resolve p \<mapsto> File (Body resp) mode_0755),
                     trace := trace w @ [Requested url]\<rparr>)"
proof -
  note c = os_Create_ok[OF assms(1)]
  show ?thesis
    using assms(2,3)
    apply (simp add: downloadFile_def c(1) http_Get_def emit_def io_Copy_def append_file_def)
    apply (subst os_Chmod_written[OF assms(4) c(2) c(3)])
     apply simp
    apply (simp add: Perm_0755)
    done
qed

text \<open>
  C7, as amended. \<open>downloadFile\<close> stops at the first failure, with the state of that
  moment: after a failed creation of the destination it returns that error and nothing
  has happened (no request is sent); after a failed GET it returns that error, the
  request is the only event, and the destination is left as the creation made it
  (empty); after a failed copy it returns that error and the destination holds the
  bytes written so far, with the bits it was created with (no permission change is
  made). When the three succeed and the permission change succeeds too, it returns nil
  and the destination holds the whole body with the permission bits \<open>0755\<close>. A
  successful creation empties an existing file and keeps its bits, and makes a new file
  with the bits \<open>0666\<close> less the mask.
\<close>

theorem downloadFile_errors_and_mode:
  "(fst (os_Create h p w) = Some e \<longrightarrow> downloadFile h p url w = (Some e, w))
   \<and> (os_Create h p w = (None, w1) \<longrightarrow>
        w1 = w\<lparr>fs := (fs w)(resolve p \<mapsto>
                 File [] (case fs w (resolve p) of Some (File c m0) \<Rightarrow> m0
                          | _ \<Rightarrow> mode_0666 AND NOT (umask h)))\<rparr>)
   \<and> (os_Create h p w = (None, w1) \<and> Get h url = Inl e \<longrightarrow>
        downloadFile h p url w = (Some e, emit (Requested url) w1))
   \<and> (os_Create h p w = (None, w1) \<and> fs w1 (resolve p) = Some (File [] m)
        \<and> Get h url = Inr resp \<and> copyFault h p = Some (n, e) \<longrightarrow>
        downloadFile h p url w
        = (Some e, emit (Requested url)
                     (w1\<lparr>fs := (fs w1)(resolve p \<mapsto> File (take n (Body resp)) m)\<rparr>)))
   \<and> (os_Create h p w = (None, w1) \<and> Get h url = Inr resp \<and> copyFault h p = None
        \<and> chmodFault h p = None \<longrightarrow>
        downloadFile h p url w
        = (None, emit (Requested url)
                   (w1\<lparr>fs := (fs w1)(resolve p \<mapsto> File (Body resp) mode_0755)\<rparr>)))"
proof (intro conjI impI)
  assume a: "fst (os_Create h p w) = Some e"
  from os_Create_fail[OF a] show "downloadFile h p url w = (Some e, w)"
    by (simp add: downloadFile_def)
next
  assume a: "os_Create h p w = (None, w1)"
  then have "fst (os_Create h p w) = None" by simp
  from os_Create_ok(1)[OF this] a
  show "w1 = w\<lparr>fs := (fs w)(resolve p \<mapsto>
                 File [] (case fs w (resolve p) of Some (File c m0) \<Rightarrow> m0
                          | _ \<Rightarrow> mode_0666 AND NOT (umask h)))\<rparr>"
    by simp
next
  assume a: "os_Create h p w = (None, w1) \<and> Get h url = Inl e"
  then show "downloadFile h p url w = (Some e, emit (Requested url) w1)"
    by (simp add: downloadFile_def http_Get_def)
next
  assume a: "os_Create h p w = (None, w1) \<and> fs w1 (resolve p) = Some (File [] m)
        \<and> Get h url = Inr resp \<and> copyFault h p = Some (n, e)"
  then show "downloadFile h p url w
        = (Some e, emit (Requested url)
                     (w1\<lparr>fs := (fs w1)(resolve p \<mapsto> File (take n (Body resp)) m)\<rparr>))"
    by (simp add: downloadFile_def http_Get_def io_Copy_def append_file_def emit_def)
next
  assume a: "os_Create h p w = (None, w1) \<and> Get h url = Inr resp \<and> copyFault h p = None
        \<and> chmodFault h p = None"
  then have ok: "fst (os_Create h p w) = None" by simp
  from os_Create_ok(1)[OF ok] a
  have w1: "w1 = w\<lparr>fs := (fs w)(resolve p \<mapsto>
                 File [] (case fs w (resolve p) of Some (File c m0) \<Rightarrow> m0
                          | _ \<Rightarrow> mode_0666 AND NOT (umask h)))\<rparr>"
    by simp
  from a downloadFile_ok[OF ok, of url resp]
  show "downloadFile h p url w
        = (None, emit (Requested url)
                   (w1\<lparr>fs := (fs w1)(resolve p \<mapsto> File (Body resp) mode_0755)\<rparr>))"
    by (simp add: w1 emit_def)
qed

text \<open>
  On \<open>bareHost\<close>, writing \<open>/h/f\<close>: the creation is refused; the connection is refused;
  the copy breaks after two bytes; nothing fails.
\<close>

theorem downloadFile_errors_and_mode_witness:
  "fst (os_Create (bareHost\<lparr>openFault := (\<lambda>_. Some permissionDenied)\<rparr>) ''/h/f'' homeWorld)
     = Some permissionDenied
   \<and> downloadFile (bareHost\<lparr>openFault := (\<lambda>_. Some permissionDenied)\<rparr>) ''/h/f'' ''u''
        homeWorld = (Some permissionDenied, homeWorld)
   \<and> os_Create bareHost ''/h/f'' homeWorld
     = (None, homeWorld\<lparr>fs := (fs homeWorld)((True, [''h'', ''f'']) \<mapsto> File [] mode_0666)\<rparr>)
   \<and> downloadFile (bareHost\<lparr>Get := (\<lambda>_. Inl connectionRefused)\<rparr>) ''/h/f'' ''u'' homeWorld
     = (Some connectionRefused,
        homeWorld\<lparr>fs := (fs homeWorld)((True, [''h'', ''f'']) \<mapsto> File [] mode_0666),
                  trace := [Requested ''u'']\<rparr>)
   \<and> downloadFile (bareHost\<lparr>copyFault := (\<lambda>_. Some (2, unexpectedEOF))\<rparr>) ''/h/f'' ''u''
        homeWorld
     = (Some unexpectedEOF,
        homeWorld\<lparr>fs := (fs homeWorld)((True, [''h'', ''f'']) \<mapsto> File ''EL'' mode_0666),
                  trace := [Requested ''u'']\<rparr>)
   \<and> downloadFile bareHost ''/h/f'' ''u'' homeWorld
     = (None,
        homeWorld\<lparr>fs := (fs homeWorld)((True, [''h'', ''f'']) \<mapsto> File ''ELF'' mode_0755),
                  trace := [Requested ''u'']\<rparr>)"
proof -
  let ?w1 = "homeWorld\<lparr>fs := (fs homeWorld)((True, [''h'', ''f'']) \<mapsto> File [] mode_0666)\<rparr>"
  have r: "resolve ''/h/f'' = (True, [''h'', ''f''])" by (simp add: path_defs)
  have f: "fst (os_Create (bareHost\<lparr>openFault := (\<lambda>_. Some permissionDenied)\<rparr>) ''/h/f''
                  homeWorld) = Some permissionDenied"
    by (simp add: os_Create_def os_OpenFile_def)
  have c: "os_Create bareHost ''/h/f'' homeWorld = (None, ?w1)"
    "os_Create (bareHost\<lparr>Get := (\<lambda>_. Inl connectionRefused)\<rparr>) ''/h/f'' homeWorld = (None, ?w1)"
    "os_Create (bareHost\<lparr>copyFault := (\<lambda>_. Some (2, unexpectedEOF))\<rparr>) ''/h/f'' homeWorld
       = (None, ?w1)"
    by (simp_all add: host_examples path_defs fs_defs)
  have g: "Get bareHost ''u'' = Inr \<lparr>StatusCode = 200, Body = ''ELF''\<rparr>"
    "copyFault bareHost ''/h/f'' = None" "chmodFault bareHost ''/h/f'' = None"
    by (simp_all add: bareHost_def)
  have m: "fs ?w1 (resolve ''/h/f'') = Some (File [] mode_0666)" by (simp add: r)
  have g': "Get (bareHost\<lparr>Get := (\<lambda>_. Inl connectionRefused)\<rparr>) ''u'' = Inl connectionRefused"
    "Get (bareHost\<lparr>copyFault := (\<lambda>_. Some (2, unexpectedEOF))\<rparr>) ''u''
       = Inr \<lparr>StatusCode = 200, Body = ''ELF''\<rparr>"
    "copyFault (bareHost\<lparr>copyFault := (\<lambda>_. Some (2, unexpectedEOF))\<rparr>) ''/h/f''
       = Some (2, unexpectedEOF)"
    by (simp_all add: bareHost_def)
  note t1 = downloadFile_errors_and_mode
          [of "bareHost\<lparr>openFault := (\<lambda>_. Some permissionDenied)\<rparr>" "''/h/f''" homeWorld
              permissionDenied "''u''"]
  note t2 = downloadFile_errors_and_mode
          [of "bareHost\<lparr>Get := (\<lambda>_. Inl connectionRefused)\<rparr>" "''/h/f''" homeWorld
              connectionRefused "''u''" ?w1]
  note t3 = downloadFile_errors_and_mode
          [of "bareHost\<lparr>copyFault := (\<lambda>_. Some (2, unexpectedEOF))\<rparr>" "''/h/f''" homeWorld
              unexpectedEOF "''u''" ?w1 mode_0666 "\<lparr>StatusCode = 200, Body = ''ELF''\<rparr>" 2]
  note t4 = downloadFile_errors_and_mode
          [of bareHost "''/h/f''" homeWorld unexpectedEOF "''u''" ?w1 mode_0666
              "\<lparr>StatusCode = 200, Body = ''ELF''\<rparr>"]
  from t1 f have r1: "downloadFile (bareHost\<lparr>openFault := (\<lambda>_. Some permissionDenied)\<rparr>)
        ''/h/f'' ''u'' homeWorld = (Some permissionDenied, homeWorld)" by blast
  from t2 c(2) g'(1)
  have r2: "downloadFile (bareHost\<lparr>Get := (\<lambda>_. Inl connectionRefused)\<rparr>) ''/h/f''
        ''u'' homeWorld = (Some connectionRefused, emit (Requested ''u'') ?w1)" by blast
  from t3 c(3) m g'(2,3)
  have r3: "downloadFile (bareHost\<lparr>copyFault := (\<lambda>_. Some (2, unexpectedEOF))\<rparr>)
        ''/h/f'' ''u'' homeWorld
      = (Some unexpectedEOF, emit (Requested ''u'')
           (?w1\<lparr>fs := (fs ?w1)(resolve ''/h/f'' \<mapsto>
                File (take 2 (Body \<lparr>StatusCode = 200, Body = ''ELF''\<rparr>)) mode_0666)\<rparr>))"
    by blast
  from t4 c(1) g
  have r4: "downloadFile bareHost ''/h/f'' ''u'' homeWorld
      = (None, emit (Requested ''u'')
           (?w1\<lparr>fs := (fs ?w1)(resolve ''/h/f'' \<mapsto>
                File (Body \<lparr>StatusCode = 200, Body = ''ELF''\<rparr>) mode_0755)\<rparr>))"
    by blast
  have s2: "emit (Requested ''u'') ?w1
      = homeWorld\<lparr>fs := (fs homeWorld)((True, [''h'', ''f'']) \<mapsto> File [] mode_0666),
                  trace := [Requested ''u'']\<rparr>"
    by (simp add: emit_def homeWorld_def)
  have s3: "emit (Requested ''u'')
           (?w1\<lparr>fs := (fs ?w1)(resolve ''/h/f'' \<mapsto>
                File (take 2 (Body \<lparr>StatusCode = 200, Body = ''ELF''\<rparr>)) mode_0666)\<rparr>)
      = homeWorld\<lparr>fs := (fs homeWorld)((True, [''h'', ''f'']) \<mapsto> File ''EL'' mode_0666),
                  trace := [Requested ''u'']\<rparr>"
    by (simp add: emit_def homeWorld_def r)
  have s4: "emit (Requested ''u'')
           (?w1\<lparr>fs := (fs ?w1)(resolve ''/h/f'' \<mapsto>
                File (Body \<lparr>StatusCode = 200, Body = ''ELF''\<rparr>) mode_0755)\<rparr>)
      = homeWorld\<lparr>fs := (fs homeWorld)((True, [''h'', ''f'']) \<mapsto> File ''ELF'' mode_0755),
                  trace := [Requested ''u'']\<rparr>"
    by (simp add: emit_def homeWorld_def r)
  from f r1 c(1) r2 r3 r4 show ?thesis
    unfolding s2 s3 s4 by blast
qed

text \<open>
  The claim as stated fails: creation, GET and copy succeed, the permission change is
  refused, and \<open>downloadFile\<close> returns nil with the bits of the file still \<open>0666\<close>.
\<close>

theorem downloadFile_mode_counterexample:
  "fst (os_Create (bareHost\<lparr>chmodFault := (\<lambda>_. Some permissionDenied)\<rparr>) ''/h/f'' homeWorld)
     = None
   \<and> Get (bareHost\<lparr>chmodFault := (\<lambda>_. Some permissionDenied)\<rparr>) ''u''
     = Inr \<lparr>StatusCode = 200, Body = ''ELF''\<rparr>
   \<and> copyFault (bareHost\<lparr>chmodFault := (\<lambda>_. Some permissionDenied)\<rparr>) ''/h/f'' = None
   \<and> fst (downloadFile (bareHost\<lparr>chmodFault := (\<lambda>_. Some permissionDenied)\<rparr>) ''/h/f'' ''u''
            homeWorld) = None
   \<and> fs (snd (downloadFile (bareHost\<lparr>chmodFault := (\<lambda>_. Some permissionDenied)\<rparr>) ''/h/f''
                 ''u'' homeWorld)) (resolve ''/h/f'') = Some (File ''ELF'' mode_0666)
   \<and> mode_0666 \<noteq> mode_0755"
  by (simp add: downloadFile_def host_examples path_defs fs_defs call_defs Let_def)

text \<open>
  C10. \<open>downloadFile\<close> never reads the status code of the response: the call with a
  response of any status has the result and the final state of the call with the same
  body under any other status. So with a status such as 404, when the creation, the
  copy and the permission change succeed, it returns nil and the body sent with that
  status is the content of the destination, with the bits \<open>0755\<close>.
\<close>

theorem downloadFile_ignores_status:
  assumes "Get h url = Inr resp"
  shows
    "downloadFile h p url w
       = downloadFile (h\<lparr>Get := (Get h)(url := Inr (resp\<lparr>StatusCode := code\<rparr>))\<rparr>) p url w
     \<and> (fst (os_Create h p w) = None \<and> copyFault h p = None \<and> chmodFault h p = None \<longrightarrow>
          fst (downloadFile h p url w) = None
          \<and> fs (snd (downloadFile h p url w)) (resolve p) = Some (File (Body resp) mode_0755))"
proof (intro conjI impI)
  let ?h = "h\<lparr>Get := (Get h)(url := Inr (resp\<lparr>StatusCode := code\<rparr>))\<rparr>"
  have en: "enter ?h f a = enter h f a" for f a
    by (simp add: enter_def searchable_def cong: option.case_cong node.case_cong)
  have wc: "walk_comps ?h f r out cs = walk_comps h f r out cs" for f r out cs
    by (induction cs arbitrary: out) (simp_all add: en cong: option.case_cong)
  have wk: "walk ?h f q = walk h f q" for f q
    by (simp add: walk_def wc)
  have cr: "os_Create ?h q w' = os_Create h q w'" for q w'
    by (simp add: os_Create_def os_OpenFile_def wk writable_def dir_writable_def
        cong: option.case_cong sum.case_cong node.case_cong if_cong)
  have cp: "io_Copy ?h q d w' = io_Copy h q d w'" for q d w'
    by (simp add: io_Copy_def)
  have ch: "os_Chmod ?h q m w' = os_Chmod h q m w'" for q m w'
    by (simp add: os_Chmod_def wk cong: option.case_cong sum.case_cong)
  show "downloadFile h p url w = downloadFile ?h p url w"
    using assms
    by (simp add: downloadFile_def cr cp ch http_Get_def split: prod.splits option.splits)
next
  assume a: "fst (os_Create h p w) = None \<and> copyFault h p = None \<and> chmodFault h p = None"
  with downloadFile_ok[of h p w url resp] assms
  have d: "downloadFile h p url w
         = (None, w\<lparr>fs := (fs w)(resolve p \<mapsto> File (Body resp) mode_0755),
                     trace := trace w @ [Requested url]\<rparr>)"
    by simp
  show "fst (downloadFile h p url w) = None" by (simp add: d)
  show "fs (snd (downloadFile h p url w)) (resolve p) = Some (File (Body resp) mode_0755)"
    by (simp add: d)
qed

theorem downloadFile_ignores_status_witness:
  "Get (bareHost\<lparr>Get := (\<lambda>_. Inr \<lparr>StatusCode = 404, Body = ''404 page not found''\<rparr>)\<rparr>) ''u''
     = Inr \<lparr>StatusCode = 404, Body = ''404 page not found''\<rparr>
   \<and> fst (downloadFile
            (bareHost\<lparr>Get := (\<lambda>_. Inr \<lparr>StatusCode = 404, Body = ''404 page not found''\<rparr>)\<rparr>)
            ''/h/f'' ''u'' homeWorld) = None
   \<and> fs (snd (downloadFile
            (bareHost\<lparr>Get := (\<lambda>_. Inr \<lparr>StatusCode = 404, Body = ''404 page not found''\<rparr>)\<rparr>)
            ''/h/f'' ''u'' homeWorld)) (resolve ''/h/f'')
       = Some (File ''404 page not found'' mode_0755)"
  using downloadFile_ignores_status
          [of "bareHost\<lparr>Get := (\<lambda>_. Inr \<lparr>StatusCode = 404, Body = ''404 page not found''\<rparr>)\<rparr>"
              "''u''" "\<lparr>StatusCode = 404, Body = ''404 page not found''\<rparr>" "''/h/f''"
              homeWorld 200]
  by (simp add: downloadFile_def host_examples path_defs fs_defs call_defs Let_def)

subsection \<open>Errors that are dropped\<close>

text \<open>
  C3 does not hold of the code. On a host that refuses every permission change,
  \<open>downloadFile\<close>, \<open>unzip\<close> and \<open>ungzip\<close> return nil, log nothing, and leave the file
  without the bits \<open>0755\<close>; on a host that refuses to create the directory of a ZIP
  entry, \<open>unzip\<close> returns nil, logs nothing, and the directory is missing.
\<close>

theorem chmod_and_mkdir_errors_dropped:
  "downloadFile (bareHost\<lparr>chmodFault := (\<lambda>_. Some permissionDenied)\<rparr>) ''/h/f'' ''u'' homeWorld
     = (None, homeWorld\<lparr>fs := (fs homeWorld)((True, [''h'', ''f'']) \<mapsto> File ''ELF'' mode_0666),
                        trace := [Requested ''u'']\<rparr>)
   \<and> fst (unzip (bareHost\<lparr>chmodFault := (\<lambda>_. Some permissionDenied)\<rparr>) ''/h/a.zip'' ''/h/t''
            homeWorld) = None
   \<and> trace (snd (unzip (bareHost\<lparr>chmodFault := (\<lambda>_. Some permissionDenied)\<rparr>) ''/h/a.zip''
                    ''/h/t'' homeWorld)) = []
   \<and> fs (snd (unzip (bareHost\<lparr>chmodFault := (\<lambda>_. Some permissionDenied)\<rparr>) ''/h/a.zip''
                 ''/h/t'' homeWorld)) (resolve ''/h/t/f'') = Some (File ''data'' 292)
   \<and> fst (ungzip (bareHost\<lparr>chmodFault := (\<lambda>_. Some permissionDenied)\<rparr>) ''/h/a.gz'' ''/h''
            homeWorld) = None
   \<and> trace (snd (ungzip (bareHost\<lparr>chmodFault := (\<lambda>_. Some permissionDenied)\<rparr>) ''/h/a.gz''
                    ''/h'' homeWorld)) = []
   \<and> fs (snd (ungzip (bareHost\<lparr>chmodFault := (\<lambda>_. Some permissionDenied)\<rparr>) ''/h/a.gz''
                 ''/h'' homeWorld)) (resolve ''/h/g'') = Some (File ''data'' mode_0666)
   \<and> fst (unzip (bareHost\<lparr>mkdirFault :=
                    (\<lambda>p. if p = ''/h/t/e'' then Some permissionDenied else None)\<rparr>)
            ''/h/a.zip'' ''/h/t'' homeWorld) = None
   \<and> trace (snd (unzip (bareHost\<lparr>mkdirFault :=
                    (\<lambda>p. if p = ''/h/t/e'' then Some permissionDenied else None)\<rparr>)
            ''/h/a.zip'' ''/h/t'' homeWorld)) = []
   \<and> fs (snd (unzip (bareHost\<lparr>mkdirFault :=
                    (\<lambda>p. if p = ''/h/t/e'' then Some permissionDenied else None)\<rparr>)
            ''/h/a.zip'' ''/h/t'' homeWorld)) (resolve ''/h/t/e'') = None"
  by (simp add: downloadFile_def unzip_def ungzip_def host_examples path_defs fs_defs
      call_defs Let_def upt_rec)

subsection \<open>The orchestrator\<close>



















lemma prefix_cut_trans: "prefix (xs @ a # ys) zs \<Longrightarrow> prefix zs us \<Longrightarrow> prefix (xs @ [a]) us"
  by (auto simp: prefix_def)






text \<open>
  C6 does not hold of the code. On \<open>bareHost\<close>, in minishift mode, the binary is
  not on the search path; the version is looked up and the URL is built by the
  template, with \<open>download/\<close> and the version in it. But \<open>filepath.Join\<close> cleans the
  install directory to \<open>/h/.fabric8/bin\<close>, without the final separator of
  \<open>binLocation\<close>, and the name is appended to that text: the download is written to
  \<open>/h/.fabric8/binminishift\<close>, and nothing is written into the install directory.
\<close>

theorem downloadKubernetes_destination:
  "fst (downloadKubernetes bareHost (getDownloadProperties True) binWorld) = Return None
   \<and> trace (snd (downloadKubernetes bareHost (getDownloadProperties True) binWorld)) =
     [LookedUp ''minishift'', Queried ''jimmidyson'' ''minishift'',
      Log Info ''Downloading %s...\<newline>''
        [S ''https://github.com/jimmidyson/minishift/releases/download/v0.10.0/minishift-linux-amd64''],
      Requested
        ''https://github.com/jimmidyson/minishift/releases/download/v0.10.0/minishift-linux-amd64'',
      Log Success ''Downloaded %s\<newline>'' [S ''minishift'']]
   \<and> filepath_Join [HomeDir bareHost, binLocation] = ''/h/.fabric8/bin''
   \<and> fs (snd (downloadKubernetes bareHost (getDownloadProperties True) binWorld))
        (resolve ''/h/.fabric8/bin/minishift'') = None
   \<and> fs (snd (downloadKubernetes bareHost (getDownloadProperties True) binWorld))
        (resolve ''/h/.fabric8/binminishift'') = Some (File ''ELF'' mode_0755)"
  by (simp add: program_defs semver_defs install_consts host_examples path_defs fs_defs
      call_defs Let_def upt_rec)

text \<open>
  C1 does not hold of the code. On \<open>bareHost\<close> (Linux, amd64, no \<open>oc\<close> on the search
  path) the URL that is requested holds the base URL twice before the suffix
  \<open>-linux-amd64.tar.gz\<close>; the archive is written to \<open>/h/.fabric8/binoc.zip\<close>; and the
  extraction is \<open>unzip\<close> of \<open>/h/.fabric8/binoc.tar.gz\<close>, a file that was not downloaded
  (first run below). Where a gzip file of that name exists, it is read as a ZIP archive
  and refused (second run).
\<close>

theorem downloadOpenShiftClient_url_and_extraction:
  "fst (downloadOpenShiftClient bareHost binWorld) = Return (Some ENOENT)
   \<and> trace (snd (downloadOpenShiftClient bareHost binWorld)) =
     [LookedUp ''oc'',
      Log Info ''Downloading %s...\<newline>''
        [S ''https://github.com/openshift/origin/releases/download/v1.2.2/openshift-origin-client-tools-v1.2.2-565691chttps://github.com/openshift/origin/releases/download/v1.2.2/openshift-origin-client-tools-v1.2.2-565691c-linux-amd64.tar.gz''],
      Requested
        ''https://github.com/openshift/origin/releases/download/v1.2.2/openshift-origin-client-tools-v1.2.2-565691chttps://github.com/openshift/origin/releases/download/v1.2.2/openshift-origin-client-tools-v1.2.2-565691c-linux-amd64.tar.gz'',
      Log Err ''Unable to untar %s %v'' [S ''/h/.fabric8/binoc.tar.gz'', E (Some ENOENT)]]
   \<and> fs (snd (downloadOpenShiftClient bareHost binWorld)) (resolve ''/h/.fabric8/binoc.zip'')
       = Some (File ''ELF'' mode_0755)
   \<and> fs (snd (downloadOpenShiftClient bareHost binWorld)) (resolve ''/h/.fabric8/binoc.tar.gz'')
       = None
   \<and> fst (downloadOpenShiftClient bareHost
            (binWorld\<lparr>fs := (fs binWorld)
               ((True, [''h'', ''.fabric8'', ''binoc.tar.gz'']) \<mapsto> File ''GZ'' 420)\<rparr>))
       = Return (Some (errors_New ''zip: not a valid zip file''))"
  by (simp add: program_defs install_consts host_examples path_defs fs_defs call_defs Let_def
      upt_rec)

subsection \<open>The version lookup\<close>

text \<open>
  Printing a parsed version gives back the text that was parsed: the numbers have no
  leading zeroes, and the identifier lists are joined as they were split.
\<close>

lemma digit_roundtrip:
  "c \<in> set numbers \<Longrightarrow> of_char c - (48::nat) < 10 \<and> digitChar (of_char c - 48) = c"
  by (auto simp: numbers_def digitChar_def)

lemma digit_zero: "c \<in> set numbers \<Longrightarrow> c \<noteq> CHR ''0'' \<Longrightarrow> 0 < (of_char c - (48::nat))"
  by (auto simp: numbers_def)

lemma digitsValue_snoc: "digitsValue (s @ [c]) = 10 * digitsValue s + (of_char c - 48)"
  by (simp add: digitsValue_def)

lemma foldl_digits_mono: "a \<le> foldl (\<lambda>a c. 10 * a + (of_char c - (48::nat))) a s"
proof (induction s arbitrary: a)
  case Nil
  show ?case by simp
next
  case (Cons c s)
  have "a \<le> 10 * a + (of_char c - 48)" by simp
  also have "\<dots> \<le> foldl (\<lambda>a c. 10 * a + (of_char c - (48::nat))) (10 * a + (of_char c - 48)) s"
    by (rule Cons.IH)
  finally show ?case by simp
qed

lemma digitsValue_pos:
  "s \<noteq> [] \<Longrightarrow> hd s \<in> set numbers \<Longrightarrow> hd s \<noteq> CHR ''0'' \<Longrightarrow> 0 < digitsValue s"
proof (cases s)
  case Nil
  assume "s \<noteq> []" with Nil show ?thesis by simp
next
  case (Cons c cs)
  assume "hd s \<in> set numbers" "hd s \<noteq> CHR ''0''"
  with Cons digit_zero[of c] have "0 < (of_char c - (48::nat))" by simp
  moreover have "of_char c - (48::nat) \<le> foldl (\<lambda>a c. 10 * a + (of_char c - (48::nat))) (of_char c - 48) cs"
    by (rule foldl_digits_mono)
  ultimately show ?thesis using Cons by (simp add: digitsValue_def)
qed

lemma FormatUint_digit: "d < 10 \<Longrightarrow> FormatUint d = [digitChar d]"
  by (subst FormatUint.simps) simp

lemma FormatUint_step:
  "0 < a \<Longrightarrow> d < 10 \<Longrightarrow> FormatUint (10 * a + d) = FormatUint a @ [digitChar d]"
  by (subst FormatUint.simps) simp

lemma FormatUint_digitsValue:
  "s \<noteq> [] \<Longrightarrow> containsOnly s numbers \<Longrightarrow> \<not> hasLeadingZeroes s
     \<Longrightarrow> FormatUint (digitsValue s) = s"
proof (induction s rule: rev_induct)
  case Nil
  then show ?case by simp
next
  case (snoc c s)
  from snoc.prems have c: "c \<in> set numbers" and s: "containsOnly s numbers"
    by (simp_all add: containsOnly_def)
  show ?case
  proof (cases "s = []")
    case True
    with c show ?thesis
      using digit_roundtrip[OF c] by (simp add: digitsValue_def FormatUint_digit)
  next
    case False
    then obtain x xs where sx: "s = x # xs" by (cases s) auto
    from snoc.prems sx have x0: "x \<noteq> CHR ''0''"
      by (cases xs) (auto simp: hasLeadingZeroes_def)
    from s sx have xn: "x \<in> set numbers" by (simp add: containsOnly_def)
    from sx x0 have nl: "\<not> hasLeadingZeroes s" by (cases xs) (auto simp: hasLeadingZeroes_def)
    from snoc.IH[OF False s nl] have ih: "FormatUint (digitsValue s) = s" .
    from digitsValue_pos[of s] sx xn x0 have pos: "0 < digitsValue s" by simp
    from FormatUint_step[OF pos, of "of_char c - 48"] digit_roundtrip[OF c] ih
    show ?thesis by (simp add: digitsValue_snoc)
  qed
qed

lemma parseNumber_roundtrip: "parseNumber what s = Inr n \<Longrightarrow> FormatUint n = s"
  by (auto simp: parseNumber_def strconv_ParseUint_def FormatUint_digitsValue split: if_splits)

lemma NewPRVersion_roundtrip: "NewPRVersion s = Inr p \<Longrightarrow> PRVersion_String p = s"
  by (auto simp: NewPRVersion_def strconv_ParseUint_def FormatUint_digitsValue
      split: if_splits sum.splits)

lemma parsePre_roundtrip: "parsePre l = Inr pre \<Longrightarrow> map PRVersion_String pre = l"
  by (induction l arbitrary: pre) (auto simp: NewPRVersion_roundtrip split: sum.splits)

lemma parseBuild_roundtrip: "parseBuild l = Inr b \<Longrightarrow> b = l"
  by (induction l arbitrary: b) (auto split: sum.splits if_splits)

lemma strings_Split_nonempty: "strings_Split s sep \<noteq> []"
  by (induction s) (auto split: list.splits)

lemma strings_Join_Cons: "ps \<noteq> [] \<Longrightarrow> strings_Join (p # ps) sep = p @ sep @ strings_Join ps sep"
  by (cases ps) auto

lemma strings_Join_Split: "strings_Join (strings_Split s sep) [sep] = s"
proof (induction s)
  case Nil
  show ?case by simp
next
  case (Cons c s)
  show ?case
  proof (cases "c = sep")
    case True
    with Cons show ?thesis by (simp add: strings_Join_Cons strings_Split_nonempty)
  next
    case False
    obtain p ps where sp: "strings_Split s sep = p # ps"
      using strings_Split_nonempty[of s sep] by (cases "strings_Split s sep") auto
    with Cons False show ?thesis by (cases ps) auto
  qed
qed

lemma strings_Join_SplitN: "0 < n \<Longrightarrow> strings_Join (strings_SplitN s sep n) [sep] = s"
proof (induction s arbitrary: n)
  case Nil
  then show ?case by simp
next
  case (Cons c s)
  show ?case
  proof (cases "n = 1")
    case True
    then show ?thesis by simp
  next
    case n1: False
    with Cons.prems have n2: "1 < n" by simp
    have ne: "\<And>m. 0 < m \<Longrightarrow> strings_SplitN s sep m \<noteq> []"
    proof -
      fix m :: nat assume "0 < m"
      then show "strings_SplitN s sep m \<noteq> []" by (cases s) (auto split: list.splits)
    qed
    show ?thesis
    proof (cases "c = sep")
      case True
      with n2 Cons.IH[of "n - 1"] ne[of "n - 1"] show ?thesis
        by (simp add: strings_Join_Cons)
    next
      case False
      obtain p ps where sp: "strings_SplitN s sep n = p # ps"
        using ne[of n] n2 by (cases "strings_SplitN s sep n") auto
      with Cons.IH[of n] n2 False show ?thesis by (cases ps) auto
    qed
  qed
qed

lemma cutAt_roundtrip:
  "cutAt c s = (a, l) \<Longrightarrow>
     s = a @ (if l = [] then [] else c # strings_Join l ''.'') \<and> (c \<in> set s \<longrightarrow> l \<noteq> [])"
proof -
  assume cut: "cutAt c s = (a, l)"
  show ?thesis
  proof (cases "c \<in> set s")
    case False
    with cut show ?thesis by (simp add: cutAt_def)
  next
    case True
    then have dw: "dropWhile (\<lambda>x. x \<noteq> c) s \<noteq> []" by simp
    then obtain y ys where d: "dropWhile (\<lambda>x. x \<noteq> c) s = y # ys"
      by (cases "dropWhile (\<lambda>x. x \<noteq> c) s") auto
    from hd_dropWhile[OF dw] d have yc: "y = c" by simp
    have "s = takeWhile (\<lambda>x. x \<noteq> c) s @ dropWhile (\<lambda>x. x \<noteq> c) s" by simp
    with d yc have s: "s = takeWhile (\<lambda>x. x \<noteq> c) s @ c # ys" by simp
    from cut True d have a: "a = takeWhile (\<lambda>x. x \<noteq> c) s" and l: "l = strings_Split ys (CHR ''.'')"
      by (simp_all add: cutAt_def)
    from l have "l \<noteq> []" by (simp add: strings_Split_nonempty)
    moreover from l have "strings_Join l ''.'' = ys" by (simp add: strings_Join_Split)
    ultimately show ?thesis using s a by simp
  qed
qed

lemma semver_Parse_parts:
  assumes "semver_Parse s = Inr v"
  shows "\<exists>p0 p1 p2 patchpre build patchStr prerelease.
           strings_SplitN s (CHR ''.'') 3 = [p0, p1, p2]
         \<and> cutAt (CHR ''+'') p2 = (patchpre, build)
         \<and> cutAt (CHR ''-'') patchpre = (patchStr, prerelease)
         \<and> parseNumber ''Major'' p0 = Inr (Major v)
         \<and> parseNumber ''Minor'' p1 = Inr (Minor v)
         \<and> parseNumber ''Patch'' patchStr = Inr (Patch v)
         \<and> parsePre prerelease = Inr (Pre v)
         \<and> parseBuild build = Inr (Build v)"
  using assms
  by (auto simp: semver_Parse_def Let_def split: if_splits list.splits sum.splits prod.splits)

lemma semver_Parse_roundtrip:
  assumes "semver_Parse s = Inr v"
  shows "Version_String v = s"
proof -
  from semver_Parse_parts[OF assms] obtain p0 p1 p2 patchpre build patchStr prerelease where
    sp: "strings_SplitN s (CHR ''.'') 3 = [p0, p1, p2]"
    and c1: "cutAt (CHR ''+'') p2 = (patchpre, build)"
    and c2: "cutAt (CHR ''-'') patchpre = (patchStr, prerelease)"
    and ma: "parseNumber ''Major'' p0 = Inr (Major v)"
    and mi: "parseNumber ''Minor'' p1 = Inr (Minor v)"
    and pa: "parseNumber ''Patch'' patchStr = Inr (Patch v)"
    and pr: "parsePre prerelease = Inr (Pre v)"
    and bu: "parseBuild build = Inr (Build v)"
    by blast
  from strings_Join_SplitN[of 3 s "CHR ''.''"] sp
  have s: "s = p0 @ ''.'' @ p1 @ ''.'' @ p2" by simp
  note p2 = cutAt_roundtrip[OF c1, THEN conjunct1]
  note pp = cutAt_roundtrip[OF c2, THEN conjunct1]
  from parsePre_roundtrip[OF pr] have pre: "map PRVersion_String (Pre v) = prerelease" .
  then have pre0: "(Pre v = []) = (prerelease = [])" by auto
  from parseBuild_roundtrip[OF bu] have bld: "Build v = build" .
  have "Version_String v =
      p0 @ ''.'' @ p1 @ ''.'' @ patchStr
      @ (if prerelease = [] then [] else CHR ''-'' # strings_Join prerelease ''.'')
      @ (if build = [] then [] else CHR ''+'' # strings_Join build ''.'')"
    by (simp add: Version_String_def parseNumber_roundtrip[OF ma] parseNumber_roundtrip[OF mi]
        parseNumber_roundtrip[OF pa] pre pre0 bld)
  also have "\<dots> = s"
    by (subst s, subst p2, subst pp) simp
  finally show ?thesis .
qed


text \<open>
  C9. When the latest release carries the tag \<open>tag\<close>, the version lookup returns what
  \<open>semver.Make\<close> makes of the tag without one leading \<open>v\<close>, a function of the tag
  alone. For the tag \<open>v1.2.3\<close> that is the version 1.2.3. Whenever a version is
  returned, its text is the tag without the leading \<open>v\<close>: for a tag that does not start
  with \<open>v\<close>, the version returned spells exactly the tag, and otherwise the lookup
  fails.
\<close>

theorem getLatestVersionFromGitHub_tag_parsing:
  assumes "\<forall>client. GetLatestRelease h client githubOwner githubRepo
             = Inr \<lparr>TagName = Some tag\<rparr>"
  shows "fst (getLatestVersionFromGitHub h githubOwner githubRepo w)
           = semver_Make (strings_TrimPrefix tag ''v'')
       \<and> (tag = ''v1.2.3'' \<longrightarrow>
            fst (getLatestVersionFromGitHub h githubOwner githubRepo w)
              = Inr \<lparr>Major = 1, Minor = 2, Patch = 3, Pre = [], Build = []\<rparr>)
       \<and> (\<forall>v. fst (getLatestVersionFromGitHub h githubOwner githubRepo w) = Inr v \<longrightarrow>
              Version_String v = strings_TrimPrefix tag ''v'')
       \<and> (\<not> strings_HasPrefix tag ''v'' \<longrightarrow>
            (\<forall>v. fst (getLatestVersionFromGitHub h githubOwner githubRepo w) = Inr v \<longrightarrow>
                  Version_String v = tag))"
proof -
  have run: "fst (getLatestVersionFromGitHub h githubOwner githubRepo w)
           = semver_Make (strings_TrimPrefix tag ''v'')"
    using assms by (simp add: getLatestVersionFromGitHub_def Let_def)
  have v123: "semver_Make (strings_TrimPrefix ''v1.2.3'' ''v'')
       = Inr \<lparr>Major = 1, Minor = 2, Patch = 3, Pre = [], Build = []\<rparr>"
    by (simp add: semver_defs Let_def)
  have rt: "\<And>v. semver_Make (strings_TrimPrefix tag ''v'') = Inr v \<Longrightarrow>
              Version_String v = strings_TrimPrefix tag ''v''"
    by (simp add: semver_Make_def semver_Parse_roundtrip)
  from run v123 rt show ?thesis
    by (auto simp: strings_TrimPrefix_def)
qed

theorem getLatestVersionFromGitHub_tag_parsing_witness:
  "(\<forall>client. GetLatestRelease (bareHost\<lparr>GetLatestRelease :=
                  (\<lambda>_ _ _. Inr \<lparr>TagName = Some ''v1.2.3''\<rparr>)\<rparr>) client ''kubernetes'' ''minikube''
             = Inr \<lparr>TagName = Some ''v1.2.3''\<rparr>)
   \<and> fst (getLatestVersionFromGitHub
            (bareHost\<lparr>GetLatestRelease := (\<lambda>_ _ _. Inr \<lparr>TagName = Some ''v1.2.3''\<rparr>)\<rparr>)
            ''kubernetes'' ''minikube'' homeWorld)
       = Inr \<lparr>Major = 1, Minor = 2, Patch = 3, Pre = [], Build = []\<rparr>
   \<and> Version_String \<lparr>Major = 1, Minor = 2, Patch = 3, Pre = [], Build = []\<rparr> = ''1.2.3''
   \<and> \<not> strings_HasPrefix ''1.2.3-rc.1+linux'' ''v''
   \<and> fst (getLatestVersionFromGitHub
            (bareHost\<lparr>GetLatestRelease := (\<lambda>_ _ _. Inr \<lparr>TagName = Some ''1.2.3-rc.1+linux''\<rparr>)\<rparr>)
            ''kubernetes'' ''minikube'' homeWorld)
       = Inr \<lparr>Major = 1, Minor = 2, Patch = 3, Pre = [PRStr ''rc'', PRNum 1], Build = [''linux'']\<rparr>
   \<and> Version_String \<lparr>Major = 1, Minor = 2, Patch = 3, Pre = [PRStr ''rc'', PRNum 1],
                       Build = [''linux'']\<rparr> = ''1.2.3-rc.1+linux''
   \<and> fst (getLatestVersionFromGitHub
            (bareHost\<lparr>GetLatestRelease := (\<lambda>_ _ _. Inr \<lparr>TagName = Some ''release-1.2''\<rparr>)\<rparr>)
            ''kubernetes'' ''minikube'' homeWorld)
       = Inl (errors_New ''No Major.Minor.Patch elements found'')"
  using getLatestVersionFromGitHub_tag_parsing
          [of "bareHost\<lparr>GetLatestRelease := (\<lambda>_ _ _. Inr \<lparr>TagName = Some ''v1.2.3''\<rparr>)\<rparr>"
              "''kubernetes''" "''minikube''" "''v1.2.3''" homeWorld]
        getLatestVersionFromGitHub_tag_parsing
          [of "bareHost\<lparr>GetLatestRelease := (\<lambda>_ _ _. Inr \<lparr>TagName = Some ''1.2.3-rc.1+linux''\<rparr>)\<rparr>"
              "''kubernetes''" "''minikube''" "''1.2.3-rc.1+linux''" homeWorld]
  by (simp add: getLatestVersionFromGitHub_def semver_defs host_examples Let_def errors_New_def)

subsection \<open>The archive round trip\<close>
























lemma mode_0777_mask: "mode_0777 = mask 9"
  by (simp add: mode_0777_def mask_eq_exp_minus_1)

lemma bit_ModeDir: "bit ModeDir n = (n = 31)"
proof -
  have e: "ModeDir = push_bit 31 1" by (simp add: ModeDir_def)
  have "bit (push_bit 31 (1::32 word)) n = (n = 31)"
    unfolding bit_push_bit_iff by (auto simp: bit_1_iff)
  with e show ?thesis by simp
qed

lemma bit_Perm: "bit (Perm m) n = (n < 9 \<and> bit m n)"
  by (auto simp: Perm_def mode_0777_mask bit_simps)

lemma Perm_Perm: "Perm (Perm m) = Perm m"
  by (rule bit_word_eqI) (auto simp: bit_Perm)

lemma Perm_ModeDir: "Perm (ModeDir OR Perm m) = Perm m"
  by (rule bit_word_eqI) (auto simp: bit_Perm bit_or_iff bit_ModeDir)




text \<open>The mask takes bits away and adds none.\<close>

lemma Perm_ModeDir_mask: "Perm (ModeDir OR Perm m) AND NOT u = Perm m AND NOT u"
  by (simp add: Perm_ModeDir)

lemma Perm_Perm_mask: "Perm (Perm m) AND NOT u = Perm m AND NOT u"
  by (simp add: Perm_Perm)



lemma ancestors_fst: "a \<in> set (ancestors k) \<Longrightarrow> fst a = fst k"
  by (auto simp: ancestors_def)










































end
